theory Spec2Isabelle
  imports Main
begin

section \<open>The JavaScript values the configuration code handles\<close>

text \<open>
  The stack is configured from \<^verbatim>\<open>process.env\<close>: a dictionary from variable names to
  strings, in which a variable that is not set reads as \<^verbatim>\<open>undefined\<close>. It is a map from
  names to strings; \<open>None\<close> is \<^verbatim>\<open>undefined\<close>.
\<close>

type_synonym env = "string \<rightharpoonup> string"

text \<open>
  \<^verbatim>\<open>process.env.X || d\<close>: the value of the variable unless it is falsy. The falsy values
  of type \<^verbatim>\<open>string | undefined\<close> are \<^verbatim>\<open>undefined\<close> and the empty string.
\<close>

definition or_default :: "string option \<Rightarrow> string \<Rightarrow> string" where
  "or_default v d = (case v of None \<Rightarrow> d | Some s \<Rightarrow> if s = [] then d else s)"

text \<open>
  A template literal converts an interpolated \<^verbatim>\<open>undefined\<close> to the text \<^verbatim>\<open>undefined\<close>.
\<close>

definition interpolate :: "string option \<Rightarrow> string" where
  "interpolate v = (case v of None \<Rightarrow> ''undefined'' | Some s \<Rightarrow> s)"

text \<open>
  Every error of the configuration code is a JavaScript \<^verbatim>\<open>Error\<close> with a message.
\<close>

datatype error = Error string

section \<open>\<^verbatim>\<open>JSON.parse\<close>\<close>

text \<open>
  \<^verbatim>\<open>resolveMinecraftEnvVars\<close> hands the text of a variable to the built-in
  \<^verbatim>\<open>JSON.parse\<close>, which either returns a value or throws a \<^verbatim>\<open>SyntaxError\<close>. The model
  follows the JSON grammar of ECMA-404: a lexer turns the text into tokens, a stack
  machine builds the value. \<open>None\<close> is the thrown \<^verbatim>\<open>SyntaxError\<close>.

  The text of a variable is a \<open>string\<close>, each character of which is one code unit
  below 256. The strings inside a parsed value are lists of UTF-16 code units, because an
  escape \<^verbatim>\<open>\uXXXX\<close> can denote any of them. A number keeps the text it was written
  with, since JavaScript would turn it into a double.
\<close>

type_synonym jsstring = "nat list"

text \<open>The code unit of a character of the text.\<close>

definition unit_of :: "char \<Rightarrow> nat" where
  "unit_of c = of_char c"

definition js :: "string \<Rightarrow> jsstring" where
  "js s = map unit_of s"

datatype json =
    JNull
  | JBool bool
  | JNumber string
  | JString jsstring
  | JArray "json list"
  | JObject "(jsstring \<times> json) list"

datatype token =
    TLBrace | TRBrace | TLBracket | TRBracket | TColon | TComma
  | TString jsstring | TNumber string | TTrue | TFalse | TNull

definition isWhitespace :: "char \<Rightarrow> bool" where
  "isWhitespace c = (c = CHR 0x20 \<or> c = CHR 0x09 \<or> c = CHR 0x0A \<or> c = CHR 0x0D)"

definition isDigit :: "char \<Rightarrow> bool" where
  "isDigit c = (48 \<le> unit_of c \<and> unit_of c \<le> 57)"

definition hexval :: "char \<Rightarrow> nat option" where
  "hexval c =
     (if 48 \<le> unit_of c \<and> unit_of c \<le> 57 then Some (unit_of c - 48)
      else if 97 \<le> unit_of c \<and> unit_of c \<le> 102 then Some (unit_of c - 87)
      else if 65 \<le> unit_of c \<and> unit_of c \<le> 70 then Some (unit_of c - 55)
      else None)"

definition hex4 :: "char \<Rightarrow> char \<Rightarrow> char \<Rightarrow> char \<Rightarrow> nat option" where
  "hex4 a b c d =
     (case (hexval a, hexval b, hexval c, hexval d) of
        (Some w, Some x, Some y, Some z) \<Rightarrow> Some (((w * 16 + x) * 16 + y) * 16 + z)
      | _ \<Rightarrow> None)"

text \<open>The character after a backslash, other than \<^verbatim>\<open>u\<close>, and the code unit it denotes.\<close>

definition escape :: "char \<Rightarrow> nat option" where
  "escape e =
     (if e = CHR 0x22 then Some 0x22
      else if e = CHR 0x5C then Some 0x5C
      else if e = CHR ''/'' then Some 0x2F
      else if e = CHR ''b'' then Some 0x08
      else if e = CHR ''f'' then Some 0x0C
      else if e = CHR ''n'' then Some 0x0A
      else if e = CHR ''r'' then Some 0x0D
      else if e = CHR ''t'' then Some 0x09
      else None)"

text \<open>
  The rest of a string after its opening quote: the code units up to the closing quote
  (gathered in reverse in \<open>acc\<close>) and the text behind it. A control character, an unknown
  escape and a missing closing quote are errors.
\<close>

fun lexString :: "string \<Rightarrow> jsstring \<Rightarrow> (jsstring \<times> string) option" where
  "lexString [] acc = None"
| "lexString (c # cs) acc =
     (if c = CHR 0x22 then Some (rev acc, cs)
      else if c = CHR 0x5C then
        (case cs of
           [] \<Rightarrow> None
         | e # cs' \<Rightarrow>
             if e = CHR ''u'' then
               (case cs' of
                  h1 # h2 # h3 # h4 # rest \<Rightarrow>
                    (case hex4 h1 h2 h3 h4 of
                       None \<Rightarrow> None
                     | Some n \<Rightarrow> lexString rest (n # acc))
                | _ \<Rightarrow> None)
             else
               (case escape e of
                  None \<Rightarrow> None
                | Some n \<Rightarrow> lexString cs' (n # acc)))
      else if unit_of c < 0x20 then None
      else lexString cs (unit_of c # acc))"

text \<open>
  A number: an optional minus, an integer part without a leading zero, an optional
  fraction and an optional exponent, each with at least one digit. The result is the text
  of the number and the text behind it.
\<close>

definition lexInt :: "string \<Rightarrow> (string \<times> string) option" where
  "lexInt cs =
     (case cs of
        [] \<Rightarrow> None
      | d # r \<Rightarrow>
          if d = CHR ''0'' then Some ([d], r)
          else if isDigit d then Some (takeWhile isDigit cs, dropWhile isDigit cs)
          else None)"

definition lexFrac :: "string \<Rightarrow> (string \<times> string) option" where
  "lexFrac cs =
     (case cs of
        [] \<Rightarrow> Some ([], cs)
      | p # r \<Rightarrow>
          if p = CHR ''.'' then
            (if takeWhile isDigit r = [] then None
             else Some (p # takeWhile isDigit r, dropWhile isDigit r))
          else Some ([], cs))"

definition lexSign :: "string \<Rightarrow> string \<times> string" where
  "lexSign cs =
     (case cs of
        [] \<Rightarrow> ([], cs)
      | s # r \<Rightarrow> if s = CHR ''+'' \<or> s = CHR ''-'' then ([s], r) else ([], cs))"

definition lexExp :: "string \<Rightarrow> (string \<times> string) option" where
  "lexExp cs =
     (case cs of
        [] \<Rightarrow> Some ([], cs)
      | e # r \<Rightarrow>
          if e = CHR ''e'' \<or> e = CHR ''E'' then
            (case lexSign r of
               (sg, r') \<Rightarrow>
                 if takeWhile isDigit r' = [] then None
                 else Some (e # sg @ takeWhile isDigit r', dropWhile isDigit r'))
          else Some ([], cs))"

definition lexMinus :: "string \<Rightarrow> string \<times> string" where
  "lexMinus cs =
     (case cs of
        [] \<Rightarrow> ([], cs)
      | s # r \<Rightarrow> if s = CHR ''-'' then ([s], r) else ([], cs))"

definition lexNumber :: "string \<Rightarrow> (string \<times> string) option" where
  "lexNumber cs =
     (case lexMinus cs of
        (mi, r0) \<Rightarrow>
          (case lexInt r0 of
             None \<Rightarrow> None
           | Some (ip, r1) \<Rightarrow>
               (case lexFrac r1 of
                  None \<Rightarrow> None
                | Some (fp, r2) \<Rightarrow>
                    (case lexExp r2 of
                       None \<Rightarrow> None
                     | Some (ep, r3) \<Rightarrow> Some (mi @ ip @ fp @ ep, r3)))))"

text \<open>The literals \<^verbatim>\<open>true\<close>, \<^verbatim>\<open>false\<close> and \<^verbatim>\<open>null\<close>: the text behind the word \<open>w\<close>.\<close>

fun stripWord :: "string \<Rightarrow> string \<Rightarrow> string option" where
  "stripWord [] cs = Some cs"
| "stripWord (w # ws) [] = None"
| "stripWord (w # ws) (c # cs) = (if w = c then stripWord ws cs else None)"

lemma lexString_shorter:
  "lexString cs acc = Some (s, rest) \<Longrightarrow> length rest < length cs"
proof (induction cs acc rule: lexString.induct)
  case (1 acc)
  then show ?case by simp
next
  case (2 c cs acc)
  show ?case
  proof (cases "c = CHR 0x22")
    case True
    with "2.prems" show ?thesis by simp
  next
    case quote: False
    show ?thesis
    proof (cases "c = CHR 0x5C")
      case False
      with quote "2.prems" "2.IH"(3) show ?thesis
        by (fastforce split: if_splits)
    next
      case True
      with quote "2.prems" obtain e cs' where cs: "cs = e # cs'"
        by (cases cs) auto
      show ?thesis
      proof (cases "e = CHR ''u''")
        case False
        with quote True cs "2.prems" obtain n where
          "escape e = Some n" "lexString cs' (n # acc) = Some (s, rest)"
          by (auto split: option.splits)
        with "2.IH"(2) [OF quote True cs False] cs show ?thesis
          by fastforce
      next
        case u: True
        with quote True cs "2.prems" obtain h1 h2 h3 h4 r n where
          r: "cs' = h1 # h2 # h3 # h4 # r" and "hex4 h1 h2 h3 h4 = Some n"
          and "lexString r (n # acc) = Some (s, rest)"
          by (auto split: list.splits option.splits)
        with "2.IH"(1) [OF quote True cs u] cs show ?thesis
          by fastforce
      qed
    qed
  qed
qed

lemma lexInt_shorter: "lexInt cs = Some (t, rest) \<Longrightarrow> length rest < length cs"
proof (cases cs)
  case Nil
  then show "lexInt cs = Some (t, rest) \<Longrightarrow> length rest < length cs"
    by (simp add: lexInt_def)
next
  case (Cons d r)
  have "length (dropWhile isDigit r) \<le> length r"
    by (rule length_dropWhile_le)
  with Cons show "lexInt cs = Some (t, rest) \<Longrightarrow> length rest < length cs"
    by (auto simp: lexInt_def split: if_splits)
qed

lemma lexFrac_shorter: "lexFrac cs = Some (t, rest) \<Longrightarrow> length rest \<le> length cs"
proof (cases cs)
  case Nil
  then show "lexFrac cs = Some (t, rest) \<Longrightarrow> length rest \<le> length cs"
    by (simp add: lexFrac_def)
next
  case (Cons p r)
  have "length (dropWhile isDigit r) \<le> length r"
    by (rule length_dropWhile_le)
  with Cons show "lexFrac cs = Some (t, rest) \<Longrightarrow> length rest \<le> length cs"
    by (auto simp: lexFrac_def split: if_splits)
qed

lemma lexSign_shorter: "lexSign cs = (t, rest) \<Longrightarrow> length rest \<le> length cs"
  by (cases cs) (auto simp: lexSign_def split: if_splits)

lemma lexExp_shorter: "lexExp cs = Some (t, rest) \<Longrightarrow> length rest \<le> length cs"
proof (cases cs)
  case Nil
  then show "lexExp cs = Some (t, rest) \<Longrightarrow> length rest \<le> length cs"
    by (simp add: lexExp_def)
next
  case (Cons e r)
  obtain sg r' where sg: "lexSign r = (sg, r')"
    by (cases "lexSign r")
  have "length (dropWhile isDigit r') \<le> length r'"
    by (rule length_dropWhile_le)
  moreover have "length r' \<le> length r"
    using sg by (rule lexSign_shorter)
  ultimately show "lexExp cs = Some (t, rest) \<Longrightarrow> length rest \<le> length cs"
    using Cons sg by (auto simp: lexExp_def split: if_splits)
qed

lemma lexNumber_shorter:
  assumes "lexNumber cs = Some (t, rest)"
  shows "length rest < length cs"
proof -
  obtain mi r0 where m: "lexMinus cs = (mi, r0)"
    by (cases "lexMinus cs")
  have r0: "length r0 \<le> length cs"
    using m by (cases cs) (auto simp: lexMinus_def split: if_splits)
  from assms m obtain ip r1 fp r2 ep where
    i: "lexInt r0 = Some (ip, r1)" and f: "lexFrac r1 = Some (fp, r2)"
    and e: "lexExp r2 = Some (ep, rest)"
    by (auto simp: lexNumber_def split: option.splits)
  from lexInt_shorter [OF i] lexFrac_shorter [OF f] lexExp_shorter [OF e] r0
  show ?thesis by simp
qed

lemma stripWord_shorter: "stripWord w cs = Some rest \<Longrightarrow> length rest \<le> length cs"
  by (induction w cs rule: stripWord.induct) (auto split: if_splits)

function lex :: "string \<Rightarrow> token list option" where
  "lex [] = Some []"
| "lex (c # cs) =
     (if isWhitespace c then lex cs
      else if c = CHR ''{'' then map_option (Cons TLBrace) (lex cs)
      else if c = CHR ''}'' then map_option (Cons TRBrace) (lex cs)
      else if c = CHR ''['' then map_option (Cons TLBracket) (lex cs)
      else if c = CHR '']'' then map_option (Cons TRBracket) (lex cs)
      else if c = CHR '':'' then map_option (Cons TColon) (lex cs)
      else if c = CHR '','' then map_option (Cons TComma) (lex cs)
      else if c = CHR 0x22 then
        (case lexString cs [] of
           None \<Rightarrow> None
         | Some (s, rest) \<Rightarrow> map_option (Cons (TString s)) (lex rest))
      else if c = CHR ''-'' \<or> isDigit c then
        (case lexNumber (c # cs) of
           None \<Rightarrow> None
         | Some (n, rest) \<Rightarrow> map_option (Cons (TNumber n)) (lex rest))
      else if c = CHR ''t'' then
        (case stripWord ''rue'' cs of
           None \<Rightarrow> None
         | Some rest \<Rightarrow> map_option (Cons TTrue) (lex rest))
      else if c = CHR ''f'' then
        (case stripWord ''alse'' cs of
           None \<Rightarrow> None
         | Some rest \<Rightarrow> map_option (Cons TFalse) (lex rest))
      else if c = CHR ''n'' then
        (case stripWord ''ull'' cs of
           None \<Rightarrow> None
         | Some rest \<Rightarrow> map_option (Cons TNull) (lex rest))
      else None)"
  by pat_completeness auto
termination
proof (relation "measure length")
  show "wf (measure length)" by simp
next
  fix c cs x s rest
  assume "lexString cs [] = Some x" "(s, rest) = x"
  then have "length rest < length cs"
    using lexString_shorter [of cs "[]" s rest] by simp
  then show "(rest, c # cs) \<in> measure length" by simp
next
  fix c cs x n rest
  assume "lexNumber (c # cs) = Some x" "(n, rest) = x"
  then have "length rest < length (c # cs)"
    using lexNumber_shorter [of "c # cs" n rest] by simp
  then show "(rest, c # cs) \<in> measure length" by simp
next
  fix c cs rest
  assume "stripWord ''rue'' cs = Some rest"
  then show "(rest, c # cs) \<in> measure length"
    using stripWord_shorter [of "''rue''" cs rest] by simp
next
  fix c cs rest
  assume "stripWord ''alse'' cs = Some rest"
  then show "(rest, c # cs) \<in> measure length"
    using stripWord_shorter [of "''alse''" cs rest] by simp
next
  fix c cs rest
  assume "stripWord ''ull'' cs = Some rest"
  then show "(rest, c # cs) \<in> measure length"
    using stripWord_shorter [of "''ull''" cs rest] by simp
qed simp_all

text \<open>
  The value is built by a stack machine over the tokens. A frame of the stack is an array
  or an object that is still open, with what it holds so far; an object frame also holds
  the key whose value is being read. The mode says which tokens may come next.
\<close>

datatype frame =
    ArrF "json list"
  | ObjF "(jsstring \<times> json) list" "jsstring option"

datatype mode =
    WantValue
  | WantValueOrEnd
  | WantKeyOrEnd
  | WantKey
  | WantColon
  | WantCommaOrEnd
  | Finished json

text \<open>A value is complete: it is the whole text, or it goes into the innermost frame.\<close>

fun put :: "json \<Rightarrow> frame list \<Rightarrow> (mode \<times> frame list) option" where
  "put v [] = Some (Finished v, [])"
| "put v (ArrF xs # st) = Some (WantCommaOrEnd, ArrF (xs @ [v]) # st)"
| "put v (ObjF kvs (Some k) # st) = Some (WantCommaOrEnd, ObjF (kvs @ [(k, v)]) None # st)"
| "put v (ObjF kvs None # st) = None"

fun startValue :: "token \<Rightarrow> frame list \<Rightarrow> (mode \<times> frame list) option" where
  "startValue TNull st = put JNull st"
| "startValue TTrue st = put (JBool True) st"
| "startValue TFalse st = put (JBool False) st"
| "startValue (TNumber n) st = put (JNumber n) st"
| "startValue (TString s) st = put (JString s) st"
| "startValue TLBracket st = Some (WantValueOrEnd, ArrF [] # st)"
| "startValue TLBrace st = Some (WantKeyOrEnd, ObjF [] None # st)"
| "startValue _ st = None"

fun closeArray :: "frame list \<Rightarrow> (mode \<times> frame list) option" where
  "closeArray (ArrF xs # st) = put (JArray xs) st"
| "closeArray _ = None"

fun closeObject :: "frame list \<Rightarrow> (mode \<times> frame list) option" where
  "closeObject (ObjF kvs None # st) = put (JObject kvs) st"
| "closeObject _ = None"

fun setKey :: "jsstring \<Rightarrow> frame list \<Rightarrow> (mode \<times> frame list) option" where
  "setKey k (ObjF kvs None # st) = Some (WantColon, ObjF kvs (Some k) # st)"
| "setKey k _ = None"

fun afterComma :: "frame list \<Rightarrow> (mode \<times> frame list) option" where
  "afterComma (ArrF xs # st) = Some (WantValue, ArrF xs # st)"
| "afterComma (ObjF kvs None # st) = Some (WantKey, ObjF kvs None # st)"
| "afterComma _ = None"

fun step :: "mode \<times> frame list \<Rightarrow> token \<Rightarrow> (mode \<times> frame list) option" where
  "step (WantValue, st) t = startValue t st"
| "step (WantValueOrEnd, st) t = (if t = TRBracket then closeArray st else startValue t st)"
| "step (WantKeyOrEnd, st) t =
     (case t of TString k \<Rightarrow> setKey k st | TRBrace \<Rightarrow> closeObject st | _ \<Rightarrow> None)"
| "step (WantKey, st) t = (case t of TString k \<Rightarrow> setKey k st | _ \<Rightarrow> None)"
| "step (WantColon, st) t = (if t = TColon then Some (WantValue, st) else None)"
| "step (WantCommaOrEnd, st) t =
     (case t of
        TComma \<Rightarrow> afterComma st
      | TRBracket \<Rightarrow> closeArray st
      | TRBrace \<Rightarrow> closeObject st
      | _ \<Rightarrow> None)"
| "step (Finished v, st) t = None"

fun run :: "mode \<times> frame list \<Rightarrow> token list \<Rightarrow> (mode \<times> frame list) option" where
  "run s [] = Some s"
| "run s (t # ts) = (case step s t of None \<Rightarrow> None | Some s' \<Rightarrow> run s' ts)"

definition parseTokens :: "token list \<Rightarrow> json option" where
  "parseTokens ts =
     (case run (WantValue, []) ts of
        Some (Finished v, st) \<Rightarrow> Some v
      | _ \<Rightarrow> None)"

definition JSON_parse :: "string \<Rightarrow> json option" where
  "JSON_parse text = (case lex text of None \<Rightarrow> None | Some ts \<Rightarrow> parseTokens ts)"

section \<open>The configuration: \<^verbatim>\<open>resolveConfig\<close>\<close>

text \<open>
  An object spread \<^verbatim>\<open>{...obj, ...v}\<close> copies the own enumerable properties of \<open>v\<close> over
  those of \<open>obj\<close>. An object has its members (a later duplicate of a key replaces an
  earlier one), an array its elements under their indices, a string its code units under
  their indices; \<^verbatim>\<open>null\<close>, a boolean and a number have none.
\<close>

fun decimal :: "nat \<Rightarrow> string" where
  "decimal n =
     (if n < 10 then [char_of (48 + n)]
      else decimal (n div 10) @ [char_of (48 + n mod 10)])"

definition indexed :: "'a list \<Rightarrow> (jsstring \<times> 'a) list" where
  "indexed xs = zip (map (\<lambda>i. js (decimal i)) [0..<length xs]) xs"

fun ownProps :: "json \<Rightarrow> (jsstring \<times> json) list" where
  "ownProps (JObject kvs) = kvs"
| "ownProps (JArray xs) = indexed xs"
| "ownProps (JString u) = indexed (map (\<lambda>c. JString [c]) u)"
| "ownProps _ = []"

type_synonym MinecraftImageEnv = "jsstring \<rightharpoonup> json"

definition setProp :: "jsstring \<times> json \<Rightarrow> MinecraftImageEnv \<Rightarrow> MinecraftImageEnv" where
  "setProp kv obj = obj(fst kv \<mapsto> snd kv)"

definition spread :: "MinecraftImageEnv \<Rightarrow> json \<Rightarrow> MinecraftImageEnv" where
  "spread obj v = fold setProp (ownProps v) obj"

text \<open>
  \<^verbatim>\<open>resolveMinecraftEnvVars\<close> of src/unnamed/part_001. Its parameter has the default
  \<^verbatim>\<open>''\<close>, which stands in for an argument that is \<^verbatim>\<open>undefined\<close> only. Whatever the
  \<^verbatim>\<open>try\<close> block throws is replaced by one error.
\<close>

definition resolveMinecraftEnvVars :: "string option \<Rightarrow> error + MinecraftImageEnv" where
  "resolveMinecraftEnvVars json =
     (let text = (case json of None \<Rightarrow> [] | Some s \<Rightarrow> s);
          defaults = [js ''EULA'' \<mapsto> JString (js ''TRUE'')]
      in case JSON_parse text of
           None \<Rightarrow> Inl (Error ''Unable to resolve .env value for MINECRAFT_IMAGE_ENV_VARS_JSON.'')
         | Some v \<Rightarrow> Inr (spread defaults v))"

text \<open>
  The copy of the function in src/cdk/lib/ec2-stack.ts (lines 470 to 478) has no defaults.
\<close>

definition resolveMinecraftEnvVars_ec2 :: "string option \<Rightarrow> error + MinecraftImageEnv" where
  "resolveMinecraftEnvVars_ec2 json =
     (let text = (case json of None \<Rightarrow> [] | Some s \<Rightarrow> s)
      in case JSON_parse text of
           None \<Rightarrow> Inl (Error ''Unable to resolve .env value for MINECRAFT_IMAGE_ENV_VARS_JSON.'')
         | Some v \<Rightarrow> Inr (spread Map.empty v))"

datatype MinecraftEdition = java | bedrock

record Twilio =
  phoneFrom :: string
  phoneTo :: string
  accountId :: string
  authCode :: string

text \<open>
  The configuration object. The numbers of JavaScript are doubles; their type is the
  parameter \<open>'n\<close>. The copy of \<^verbatim>\<open>resolveConfig\<close> in src/unnamed/part_001 returns four more
  fields than the one in src/cdk/lib/ec2-stack.ts: they extend the record.
\<close>

record 'n StackConfig =
  domainName :: string
  subdomainPart :: string
  serverRegion :: string
  minecraftEdition :: MinecraftEdition
  shutdownMinutes :: string
  startupMinutes :: string
  useFargateSpot :: bool
  taskCpu :: 'n
  taskMemory :: 'n
  vpcId :: string
  minecraftImageEnv :: MinecraftImageEnv
  snsEmailAddress :: string
  twilio :: Twilio
  debug :: bool

record 'n NamedStackConfig = "'n StackConfig" +
  clusterName :: string
  serviceName :: string
  serverContainerName :: string
  ecsVolumeName :: string

text \<open>
  What the configuration code calls and src/ does not hold: \<^verbatim>\<open>stringAsBoolean\<close> of
  \<^verbatim>\<open>./util\<close>, and the arithmetic of JavaScript, of which the code uses the unary plus on
  a string (\<open>toNumber\<close>) and number literals (\<open>number\<close>). They are parameters.
\<close>

record 'n helpers =
  stringAsBoolean :: "string option \<Rightarrow> bool"
  toNumber :: "string \<Rightarrow> 'n"
  number :: "nat \<Rightarrow> 'n"

text \<open>\<^verbatim>\<open>+(process.env.X || d)\<close> for a number literal \<open>d\<close>.\<close>

definition plus_or_default :: "'n helpers \<Rightarrow> string option \<Rightarrow> nat \<Rightarrow> 'n" where
  "plus_or_default h v d =
     (case v of
        None \<Rightarrow> number h d
      | Some s \<Rightarrow> if s = [] then number h d else toNumber h s)"

text \<open>
  \<^verbatim>\<open>resolveConfig\<close> of src/unnamed/part_001. The one call in the object literal that can
  throw is \<^verbatim>\<open>resolveMinecraftEnvVars\<close>; its error is the error of \<^verbatim>\<open>resolveConfig\<close>.
\<close>

definition resolveConfig :: "'n helpers \<Rightarrow> env \<Rightarrow> error + 'n NamedStackConfig" where
  "resolveConfig h env =
     (case resolveMinecraftEnvVars (env ''MINECRAFT_IMAGE_ENV_VARS_JSON'') of
        Inl e \<Rightarrow> Inl e
      | Inr imageEnv \<Rightarrow>
          Inr \<lparr>
            domainName = or_default (env ''DOMAIN_NAME'') [],
            subdomainPart = or_default (env ''SUBDOMAIN_PART'') [],
            serverRegion = or_default (env ''SERVER_REGION'') [],
            minecraftEdition =
              (if env ''MINECRAFT_EDITION'' = Some ''bedrock'' then bedrock else java),
            shutdownMinutes = or_default (env ''SHUTDOWN_MINUTES'') ''30'',
            startupMinutes = or_default (env ''STARTUP_MINUTES'') ''10'',
            useFargateSpot = (stringAsBoolean h (env ''USE_FARGATE_SPOT'') \<or> True),
            taskCpu = plus_or_default h (env ''TASK_CPU'') 8192,
            taskMemory = plus_or_default h (env ''TASK_MEMORY'') 2048,
            vpcId = or_default (env ''VPC_ID'') [],
            minecraftImageEnv = imageEnv,
            snsEmailAddress = or_default (env ''SNS_EMAIL_ADDRESS'') [],
            twilio = \<lparr>
              phoneFrom = or_default (env ''TWILIO_PHONE_FROM'') [],
              phoneTo = or_default (env ''TWILIO_PHONE_TO'') [],
              accountId = or_default (env ''TWILIO_ACCOUNT_ID'') [],
              authCode = or_default (env ''TWILIO_AUTH_CODE'') []
            \<rparr>,
            debug = (stringAsBoolean h (env ''DEBUG'') \<or> False),
            clusterName =
              or_default (env ''CLUSTER_NAME'')
                (''minecraft-server-'' @ interpolate (env ''SUBDOMAINPART'')),
            serviceName = or_default (env ''SERVICE_NAME'') ''minecraft-server'',
            serverContainerName = or_default (env ''SERVER_CONTAINER_NAME'') ''minecraft-server'',
            ecsVolumeName =
              or_default (env ''ECS_VOLUME_NAME'')
                (''minecraft-server-'' @ interpolate (env ''SUBDOMAINPART'') @ ''-data'')
          \<rparr>)"

text \<open>\<^verbatim>\<open>resolveConfig\<close> of src/cdk/lib/ec2-stack.ts (lines 480 to 503).\<close>

definition resolveConfig_ec2 :: "'n helpers \<Rightarrow> env \<Rightarrow> error + 'n StackConfig" where
  "resolveConfig_ec2 h env =
     (case resolveMinecraftEnvVars_ec2 (env ''MINECRAFT_IMAGE_ENV_VARS_JSON'') of
        Inl e \<Rightarrow> Inl e
      | Inr imageEnv \<Rightarrow>
          Inr \<lparr>
            domainName = or_default (env ''DOMAIN_NAME'') [],
            subdomainPart = or_default (env ''SUBDOMAIN_PART'') [],
            serverRegion = or_default (env ''SERVER_REGION'') [],
            minecraftEdition =
              (if env ''MINECRAFT_EDITION'' = Some ''bedrock'' then bedrock else java),
            shutdownMinutes = or_default (env ''SHUTDOWN_MINUTES'') ''30'',
            startupMinutes = or_default (env ''STARTUP_MINUTES'') ''10'',
            useFargateSpot = (stringAsBoolean h (env ''USE_FARGATE_SPOT'') \<or> True),
            taskCpu = plus_or_default h (env ''TASK_CPU'') 10240,
            taskMemory = plus_or_default h (env ''TASK_MEMORY'') 2048,
            vpcId = or_default (env ''VPC_ID'') [],
            minecraftImageEnv = imageEnv,
            snsEmailAddress = or_default (env ''SNS_EMAIL_ADDRESS'') [],
            twilio = \<lparr>
              phoneFrom = or_default (env ''TWILIO_PHONE_FROM'') [],
              phoneTo = or_default (env ''TWILIO_PHONE_TO'') [],
              accountId = or_default (env ''TWILIO_ACCOUNT_ID'') [],
              authCode = or_default (env ''TWILIO_AUTH_CODE'') []
            \<rparr>,
            debug = (stringAsBoolean h (env ''DEBUG'') \<or> False)
          \<rparr>)"

section \<open>The stack: \<^verbatim>\<open>MinecraftStack\<close>\<close>

text \<open>
  The constructor of \<^verbatim>\<open>MinecraftStack\<close> (src/cdk/lib/ec2-stack.ts, lines 116 to 463)
  declares resources; nothing in it runs the server. The model is the function from the
  configuration to the declared resources. Each construct of the CDK is the record of
  the properties the constructor gives it.
\<close>

subsection \<open>Identity and access management\<close>

datatype Effect = ALLOW | DENY

record PolicyStatement =
  sid :: "string option"
  effect :: Effect
  actions :: "string list"
  resources :: "string list"
  conditions :: "(string \<times> string \<times> string) list"

record Policy =
  policyId :: string
  statements :: "PolicyStatement list"

text \<open>
  A role the stack creates (its identifier, the service that may assume it, its
  description), or a role of another stack, imported by its name (ARN).
\<close>

datatype Role =
    NewRole string string string
  | fromRoleArn string string

subsection \<open>Containers, task definition and service\<close>

datatype Protocol = TCP | UDP

datatype Port = tcp nat | udp nat

text \<open>
  \<^verbatim>\<open>getMinecraftServerConfig\<close> and \<^verbatim>\<open>isDockerInstalled\<close> of \<^verbatim>\<open>./util\<close> and the
  \<^verbatim>\<open>constants\<close> of \<^verbatim>\<open>./constants\<close> are not under src/: they are parameters.
\<close>

record MinecraftServerConfig =
  image :: string
  port :: nat
  protocol :: Protocol
  ingressRulePort :: Port

record util =
  getMinecraftServerConfig :: "MinecraftEdition \<Rightarrow> MinecraftServerConfig"
  isDockerInstalled :: bool

record constants =
  DOMAIN_STACK_REGION :: string
  WATCHDOG_SERVER_CONTAINER_NAME :: string

text \<open>
  The values the CDK resolves when the stack is deployed, which the constructor only
  passes along: identifiers and names (ARNs) of the resources, the two parameters read
  from the parameter store of the domain stack's region, the stack's own partition,
  region and account, and the resolved path of the watchdog's directory.
\<close>

record tokens =
  fileSystemId :: string
  fileSystemArn :: string
  accessPointId :: string
  accessPointArn :: string
  serviceArn :: string
  topicArn :: string
  hostedZoneId :: string
  launcherLambdaRoleArn :: string
  stackPartition :: string
  stackRegion :: string
  stackAccount :: string
  watchdogAssetPath :: string

datatype Vpc = fromLookup string | NewVpc nat nat

datatype ContainerImage = fromRegistry string | fromAsset string

datatype RetentionDays = THREE_DAYS

record AwsLogDriver =
  logRetention :: RetentionDays
  streamPrefix :: string

record PortMapping =
  containerPort :: nat
  hostPort :: nat
  mappingProtocol :: Protocol

record MountPoint =
  containerPath :: string
  sourceVolume :: string
  readOnly :: bool

record Cluster =
  cluster_name :: string
  containerInsights :: bool
  enableFargateCapacityProviders :: bool

record EfsVolume =
  volumeName :: string
  volumeFileSystemId :: string
  transitEncryption :: string
  volumeAccessPointId :: string
  volumeIam :: string

record 'n FargateTaskDefinition =
  taskRole :: Role
  memoryLimitMiB :: 'n
  cpu :: 'n
  volumes :: "EfsVolume list"

text \<open>
  A container is declared into a task definition (its property \<^verbatim>\<open>taskDefinition\<close>): it
  runs in the tasks of that definition, under the task role of that definition.
\<close>

record ('n, 'e) ContainerDefinition =
  containerName :: string
  containerImage :: ContainerImage
  portMappings :: "PortMapping list"
  environment :: 'e
  essential :: bool
  containerTaskDefinition :: "'n FargateTaskDefinition"
  logging :: "AwsLogDriver option"
  mountPoints :: "MountPoint list"

record CapacityProviderStrategy =
  capacityProvider :: string
  weight :: nat
  base :: nat

datatype FargatePlatformVersion = LATEST

record 'n FargateService =
  serviceCluster :: Cluster
  capacityProviderStrategies :: "CapacityProviderStrategy list"
  serviceTaskDefinition :: "'n FargateTaskDefinition"
  platformVersion :: FargatePlatformVersion
  service_name :: string
  desiredCount :: nat
  assignPublicIp :: bool

subsection \<open>Notification topic\<close>

record Topic =
  displayName :: string

datatype SubscriptionProtocol = EMAIL

record Subscription =
  subscriptionProtocol :: SubscriptionProtocol
  endpoint :: string

subsection \<open>The declared resources\<close>

text \<open>
  The resources of the stack that the container service, the notifications and the
  permissions consist of. \<open>attachments\<close> lists the calls of \<^verbatim>\<open>attachToRole\<close> in their
  order, \<open>managedPolicies\<close> the calls of \<^verbatim>\<open>addManagedPolicy\<close>. The file system, its
  access point, the security groups and the EC2 instance of the constructor are not part
  of the record; of them only the identifiers in \<open>tokens\<close> reach the resources here.
\<close>

record 'n Resources =
  vpc :: Vpc
  ecsTaskRole :: Role
  cluster :: Cluster
  taskDefinition :: "'n FargateTaskDefinition"
  minecraftServerContainer :: "('n, MinecraftImageEnv) ContainerDefinition"
  minecraftServerService :: "'n FargateService"
  snsTopic :: "Topic option"
  emailSubscription :: "Subscription option"
  watchdogContainer :: "('n, (string \<times> string) list) ContainerDefinition"
  launcherLambdaRole :: Role
  ec2Role :: Role
  attachments :: "(Policy \<times> Role) list"
  managedPolicies :: "(string \<times> Role) list"

text \<open>
  \<^verbatim>\<open>snsTopic.grantPublish(ecsTaskRole)\<close> gives the role the action \<^verbatim>\<open>sns:Publish\<close> on the
  topic. It is written as one more attached policy.
\<close>

definition grantPublish :: "tokens \<Rightarrow> Policy" where
  "grantPublish tk =
     \<lparr> policyId = ''DefaultPolicy'',
       statements = [
         \<lparr> sid = None, effect = ALLOW, actions = [''sns:Publish''],
           resources = [topicArn tk], conditions = [] \<rparr>] \<rparr>"

text \<open>
  The constructor, with its local constants in their order. The block under
  \<^verbatim>\<open>if (config.snsEmailAddress)\<close> declares the topic, the grant and the subscription and
  sets \<^verbatim>\<open>snsTopicArn\<close>, which is \<^verbatim>\<open>''\<close> before; \<open>withTopic\<close> is the condition of that
  block. \<^verbatim>\<open>Arn.format\<close> with the format \<^verbatim>\<open>SLASH_RESOURCE_NAME\<close> writes
  \<^verbatim>\<open>arn:partition:service:region:account:resource/resourceName\<close>.
\<close>

definition MinecraftStack ::
  "util \<Rightarrow> constants \<Rightarrow> tokens \<Rightarrow> ('n, 'z) StackConfig_scheme \<Rightarrow> 'n Resources" where
  "MinecraftStack u k tk config =
     (let
        vpc = (if vpcId config \<noteq> [] then fromLookup (vpcId config) else NewVpc 3 0);
        efsReadWriteDataPolicy =
          \<lparr> policyId = ''DataRWPolicy'',
            statements = [
              \<lparr> sid = Some ''AllowReadWriteOnEFS'',
                effect = ALLOW,
                actions = [
                  ''elasticfilesystem:ClientMount'',
                  ''elasticfilesystem:ClientWrite'',
                  ''elasticfilesystem:DescribeFileSystems''],
                resources = [fileSystemArn tk],
                conditions = [
                  (''StringEquals'', ''elasticfilesystem:AccessPointArn'', accessPointArn tk)]
              \<rparr>] \<rparr>;
        ecsTaskRole = NewRole ''TaskRole'' ''ecs-tasks.amazonaws.com'' ''Minecraft ECS task role'';
        cluster =
          \<lparr> cluster_name = ''minecraft-server-'' @ subdomainPart config,
            containerInsights = True,
            enableFargateCapacityProviders = True \<rparr>;
        taskDefinition =
          \<lparr> taskRole = ecsTaskRole,
            memoryLimitMiB = taskMemory config,
            cpu = taskCpu config,
            volumes = [
              \<lparr> volumeName = ''minecraft-server-'' @ subdomainPart config @ ''-data'',
                volumeFileSystemId = fileSystemId tk,
                transitEncryption = ''ENABLED'',
                volumeAccessPointId = accessPointId tk,
                volumeIam = ''ENABLED'' \<rparr>] \<rparr>;
        minecraftServerConfig = getMinecraftServerConfig u (minecraftEdition config);
        minecraftServerContainer =
          \<lparr> containerName = ''minecraft-server'',
            containerImage = fromRegistry (image minecraftServerConfig),
            portMappings = [
              \<lparr> containerPort = port minecraftServerConfig,
                hostPort = port minecraftServerConfig,
                mappingProtocol = protocol minecraftServerConfig \<rparr>],
            environment = minecraftImageEnv config,
            essential = False,
            containerTaskDefinition = taskDefinition,
            logging =
              (if debug config
               then Some \<lparr> logRetention = THREE_DAYS, streamPrefix = ''minecraft-server'' \<rparr>
               else None),
            mountPoints = [
              \<lparr> containerPath = ''/data'',
                sourceVolume = ''minecraft-server-'' @ subdomainPart config @ ''-data'',
                readOnly = False \<rparr>] \<rparr>;
        minecraftServerService =
          \<lparr> serviceCluster = cluster,
            capacityProviderStrategies = [
              \<lparr> capacityProvider =
                  (if useFargateSpot config then ''FARGATE_SPOT'' else ''FARGATE''),
                weight = 1,
                base = 1 \<rparr>],
            serviceTaskDefinition = taskDefinition,
            platformVersion = LATEST,
            service_name = ''minecraft-server'',
            desiredCount = 0,
            assignPublicIp = True \<rparr>;
        hostedZoneId = hostedZoneId tk;
        withTopic = (snsEmailAddress config \<noteq> []);
        snsTopic =
          (if withTopic then Some \<lparr> displayName = ''Minecraft Server Notifications'' \<rparr>
           else None);
        emailSubscription =
          (if withTopic
           then Some \<lparr> subscriptionProtocol = EMAIL, endpoint = snsEmailAddress config \<rparr>
           else None);
        snsTopicArn = (if withTopic then topicArn tk else []);
        watchdogContainer =
          \<lparr> containerName = WATCHDOG_SERVER_CONTAINER_NAME k,
            containerImage =
              (if isDockerInstalled u then fromAsset (watchdogAssetPath tk)
               else fromRegistry ''doctorray/minecraft-ecsfargate-watchdog''),
            portMappings = [],
            environment = [
              (''CLUSTER'', ''minecraft-server-'' @ subdomainPart config),
              (''SERVICE'', ''minecraft-server''),
              (''DNSZONE'', hostedZoneId),
              (''SERVERNAME'', subdomainPart config @ ''.'' @ domainName config),
              (''SNSTOPIC'', snsTopicArn),
              (''TWILIOFROM'', phoneFrom (twilio config)),
              (''TWILIOTO'', phoneTo (twilio config)),
              (''TWILIOAID'', accountId (twilio config)),
              (''TWILIOAUTH'', authCode (twilio config)),
              (''STARTUPMIN'', startupMinutes config),
              (''SHUTDOWNMIN'', shutdownMinutes config)],
            essential = True,
            containerTaskDefinition = taskDefinition,
            logging =
              (if debug config
               then Some \<lparr> logRetention = THREE_DAYS,
                           streamPrefix = WATCHDOG_SERVER_CONTAINER_NAME k \<rparr>
               else None),
            mountPoints = [] \<rparr>;
        serviceControlPolicy =
          \<lparr> policyId = ''ServiceControlPolicy'',
            statements = [
              \<lparr> sid = Some ''AllowAllOnServiceAndTask'',
                effect = ALLOW,
                actions = [''ecs:*''],
                resources = [
                  serviceArn tk,
                  ''arn:'' @ stackPartition tk @ '':ecs:'' @ stackRegion tk @ '':''
                    @ stackAccount tk @ '':task/''
                    @ (''minecraft-server-'' @ subdomainPart config @ ''/*'')],
                conditions = [] \<rparr>,
              \<lparr> sid = None,
                effect = ALLOW,
                actions = [''ec2:DescribeNetworkInterfaces''],
                resources = [''*''],
                conditions = [] \<rparr>] \<rparr>;
        launcherLambdaRole = fromRoleArn ''LauncherLambdaRole'' (launcherLambdaRoleArn tk);
        iamRoute53Policy =
          \<lparr> policyId = ''IamRoute53Policy'',
            statements = [
              \<lparr> sid = Some ''AllowEditRecordSets'',
                effect = ALLOW,
                actions = [
                  ''route53:GetHostedZone'',
                  ''route53:ChangeResourceRecordSets'',
                  ''route53:ListResourceRecordSets''],
                resources = [''arn:aws:route53:::hostedzone/'' @ hostedZoneId],
                conditions = [] \<rparr>] \<rparr>;
        ec2Role = NewRole ''EC2Role'' ''ec2.amazonaws.com'' ''Minecraft EC2 data server role''
      in
        \<lparr> vpc = vpc,
          ecsTaskRole = ecsTaskRole,
          cluster = cluster,
          taskDefinition = taskDefinition,
          minecraftServerContainer = minecraftServerContainer,
          minecraftServerService = minecraftServerService,
          snsTopic = snsTopic,
          emailSubscription = emailSubscription,
          watchdogContainer = watchdogContainer,
          launcherLambdaRole = launcherLambdaRole,
          ec2Role = ec2Role,
          attachments =
            [(efsReadWriteDataPolicy, ecsTaskRole)]
            @ (if withTopic then [(grantPublish tk, ecsTaskRole)] else [])
            @ [(serviceControlPolicy, ecsTaskRole),
               (serviceControlPolicy, launcherLambdaRole),
               (iamRoute53Policy, ecsTaskRole)],
          managedPolicies = [(''AmazonS3ReadOnlyAccess'', ec2Role)] \<rparr>)"

subsection \<open>What a role may do\<close>






subsection \<open>The specification's statement about the record set\<close>


section \<open>The entrypoint of the application\<close>

text \<open>
  src/unnamed/part_000: resolve the configuration, check it, declare the two stacks and
  the dependency between them. A stack declaration is its identifier, the region and
  account of its environment, and the configuration it is given.
\<close>

record 'c StackDeclaration =
  stackId :: string
  region :: string
  account :: "string option"
  stackConfig :: 'c

record 'c App =
  domainStack :: "'c StackDeclaration"
  minecraftStack :: "'c StackDeclaration"
  dependencies :: "(string \<times> string) list"

definition entrypoint ::
  "'n helpers \<Rightarrow> constants \<Rightarrow> env \<Rightarrow> error + 'n NamedStackConfig App" where
  "entrypoint h k env =
     (case resolveConfig h env of
        Inl e \<Rightarrow> Inl e
      | Inr config \<Rightarrow>
          if domainName config = [] then
            Inl (Error
              ''Missing required `DOMAIN_NAME` in .env file, please specify domain name'')
          else if domainName config = [] then
            Inl (Error
              ''Missing required `SUBDOMAIN_PART` in .env file, please specify subdomain name.'')
          else if domainName config = [] then
            Inl (Error ''Missing required `SERVER_REGION` in .env file, example: us-east-1.'')
          else
            Inr \<lparr>
              domainStack =
                \<lparr> stackId = ''minecraft-domain-stack'',
                  region = DOMAIN_STACK_REGION k,
                  account = env ''CDK_DEFAULT_ACCOUNT'',
                  stackConfig = config \<rparr>,
              minecraftStack =
                \<lparr> stackId = ''minecraft-server-stack'',
                  region = serverRegion config,
                  account = env ''CDK_DEFAULT_ACCOUNT'',
                  stackConfig = config \<rparr>,
              dependencies = [(''minecraft-server-stack'', ''minecraft-domain-stack'')]
            \<rparr>)"

section \<open>The control loop and the DNS service\<close>

text \<open>
  Modelled from the spec: the state of the service in the orchestration layer (the
  ServiceState of section 3), which the Launcher and the Watchdog drive. Neither their
  programs nor the orchestration service are under src/. The state is the ServiceState
  and the desired task count.
\<close>

datatype ServiceState = IDLE | STARTING | RUNNING | STOPPING

record Service =
  serviceState :: ServiceState
  desiredTasks :: nat

text \<open>
  Modelled from the spec: \<^verbatim>\<open>setDesiredCount(n)\<close> of the orchestration service (section 6),
  which is not under src/.
\<close>

definition setDesiredCount :: "nat \<Rightarrow> Service \<Rightarrow> Service" where
  "setDesiredCount n s = s\<lparr> desiredTasks := n \<rparr>"

text \<open>
  Modelled from the spec: the service as deployed, before anything has been detected.
  It is \<open>IDLE\<close>; the desired task count is the one the stack declares for the service.
\<close>

definition deployed :: "'n FargateService \<Rightarrow> Service" where
  "deployed service = \<lparr> serviceState = IDLE, desiredTasks = desiredCount service \<rparr>"

text \<open>
  Modelled from the spec: the Launcher (section 4.2), whose program is not under src/.
  If the state is not \<open>IDLE\<close> it does nothing; otherwise it requests the desired task
  count one, and the service is \<open>STARTING\<close>.
\<close>

definition launcher :: "Service \<Rightarrow> Service" where
  "launcher s =
     (if serviceState s \<noteq> IDLE then s
      else (setDesiredCount 1 s)\<lparr> serviceState := STARTING \<rparr>)"

text \<open>
  Modelled from the spec: the shutdown by the Watchdog (section 4.3), whose program is
  not under src/. When the idle timeout has elapsed on a running service it requests the
  desired task count zero, and the service is \<open>STOPPING\<close>.
\<close>

definition scale_down :: "Service \<Rightarrow> Service" where
  "scale_down s =
     (if serviceState s = RUNNING
      then (setDesiredCount 0 s)\<lparr> serviceState := STOPPING \<rparr>
      else s)"

text \<open>
  Modelled from the spec: the four transitions of the ServiceState (section 3), which
  code outside src/ performs. A connection is detected; the task is healthy and the DNS
  record updated; the idle timeout has elapsed; the task has terminated. An event that
  does not fit the state changes nothing.
\<close>

datatype ControlEvent = ConnectionDetected | TaskHealthy | IdleTimeoutElapsed | TaskTerminated

fun control_step :: "Service \<Rightarrow> ControlEvent \<Rightarrow> Service" where
  "control_step s ConnectionDetected = launcher s"
| "control_step s TaskHealthy =
     (if serviceState s = STARTING then s\<lparr> serviceState := RUNNING \<rparr> else s)"
| "control_step s IdleTimeoutElapsed = scale_down s"
| "control_step s TaskTerminated =
     (if serviceState s = STOPPING then s\<lparr> serviceState := IDLE \<rparr> else s)"

text \<open>
  Modelled from the spec: the control loop over a sequence of events, which code outside
  src/ runs.
\<close>

definition control_run :: "Service \<Rightarrow> ControlEvent list \<Rightarrow> Service" where
  "control_run s events = foldl control_step s events"




section \<open>The Watchdog\<close>

text \<open>
  Modelled from the spec: the program of the Watchdog. The stack builds its container
  image from the directory \<^verbatim>\<open>minecraft-ecsfargate-watchdog\<close> of the repository, which is
  not under src/. The model follows section 4.3 of the specification: the four states,
  a poll every minute, the startup grace window, the idle timer, the shutdown threshold
  and the retry budget for failed polls.
\<close>

datatype WatchdogState = WAITING_FOR_PLAYERS | ACTIVE | IDLE_COUNTING | SHUTTING_DOWN

datatype Poll = Connections nat | PollFailure

datatype NotificationKind = STARTED | STOPPING | ERROR

record WatchdogConfig =
  startupMin :: nat
  shutdownMin :: nat
  retryBudget :: nat

text \<open>
  Modelled from the spec: the state of the Watchdog's program, which is not under src/.
  \<open>minutes\<close> counts the polls taken, one a minute, since the start; \<open>idleTimer\<close> is
  the IdleTimer of section 3; \<open>failures\<close> counts the failed polls in a row;
  \<open>scaleDownRequests\<close> counts the requests to set the desired task count to zero.
\<close>

record Watchdog =
  wstate :: WatchdogState
  minutes :: nat
  idleTimer :: nat
  failures :: nat
  scaleDownRequests :: nat
  notifications :: "NotificationKind list"

text \<open>
  Modelled from the spec: the start of the Watchdog's program, which is not under src/.
  On start the Watchdog enters \<open>WAITING_FOR_PLAYERS\<close>.
\<close>

definition watchdog_start :: Watchdog where
  "watchdog_start =
     \<lparr> wstate = WAITING_FOR_PLAYERS, minutes = 0, idleTimer = 0, failures = 0,
       scaleDownRequests = 0, notifications = [] \<rparr>"

text \<open>
  Modelled from the spec: a sample of zero connections in the Watchdog's program, which
  is not under src/. Within the grace window idle shutdown is suppressed: the sample
  changes nothing. After the grace period the Watchdog is \<open>IDLE_COUNTING\<close> and the idle
  timer increments; when the timer reaches the shutdown threshold the Watchdog is
  \<open>SHUTTING_DOWN\<close>, requests the desired task count zero and emits the \<open>STOPPING\<close>
  notification.
\<close>

definition zero_sample :: "WatchdogConfig \<Rightarrow> Watchdog \<Rightarrow> Watchdog" where
  "zero_sample c w =
     (if minutes w < startupMin c then w
      else if shutdownMin c \<le> idleTimer w + 1 then
        w\<lparr> wstate := SHUTTING_DOWN,
           idleTimer := idleTimer w + 1,
           scaleDownRequests := scaleDownRequests w + 1,
           notifications := notifications w @ [STOPPING] \<rparr>
      else w\<lparr> wstate := IDLE_COUNTING, idleTimer := idleTimer w + 1 \<rparr>)"

text \<open>
  Modelled from the spec: one poll of the Watchdog's program, which is not under src/.
  A poll with at least one connection makes the Watchdog \<open>ACTIVE\<close> and resets the idle
  timer. A poll with none is a zero sample. A failed poll is tolerated while the retry
  budget lasts and is a zero sample after that. Once shutting down the process ends with
  its task: no poll changes the state.
\<close>

definition poll :: "WatchdogConfig \<Rightarrow> Watchdog \<Rightarrow> Poll \<Rightarrow> Watchdog" where
  "poll c w p =
     (if wstate w = SHUTTING_DOWN then w
      else
        (let w' = w\<lparr> minutes := minutes w + 1 \<rparr> in
         case p of
           Connections n \<Rightarrow>
             if 1 \<le> n then w'\<lparr> wstate := ACTIVE, idleTimer := 0, failures := 0 \<rparr>
             else zero_sample c (w'\<lparr> failures := 0 \<rparr>)
         | PollFailure \<Rightarrow>
             if failures w < retryBudget c then w'\<lparr> failures := failures w + 1 \<rparr>
             else zero_sample c (w'\<lparr> failures := 0 \<rparr>)))"

text \<open>
  Modelled from the spec: the run of the Watchdog's program, which is not under src/,
  over the results of its polls, from its start.
\<close>

definition watchdog_run :: "WatchdogConfig \<Rightarrow> Poll list \<Rightarrow> Watchdog" where
  "watchdog_run c ps = foldl (poll c) watchdog_start ps"

section \<open>An example deployment\<close>

text \<open>
  Concrete values for the parameters, on which the theorems below are run: helpers that
  read \<^verbatim>\<open>true\<close> as true and a run of digits as its number, the two editions of the
  server, an environment that sets what the entrypoint requires and asks for on-demand
  capacity, and the configuration each copy of \<^verbatim>\<open>resolveConfig\<close> resolves from it.
\<close>

definition quoted :: "string \<Rightarrow> string" where
  "quoted s = CHR 0x22 # s @ [CHR 0x22]"

definition example_helpers :: "nat helpers" where
  "example_helpers =
     \<lparr> stringAsBoolean = (\<lambda>v. v = Some ''true''),
       toNumber = (\<lambda>s. foldl (\<lambda>n c. 10 * n + (unit_of c - 48)) 0 s),
       number = (\<lambda>n. n) \<rparr>"

definition example_util :: util where
  "example_util =
     \<lparr> getMinecraftServerConfig =
         (\<lambda>e. case e of
            java \<Rightarrow>
              \<lparr> image = ''itzg/minecraft-server'', port = 25565, protocol = TCP,
                ingressRulePort = tcp 25565 \<rparr>
          | bedrock \<Rightarrow>
              \<lparr> image = ''itzg/minecraft-bedrock-server'', port = 19132, protocol = UDP,
                ingressRulePort = udp 19132 \<rparr>),
       isDockerInstalled = False \<rparr>"

definition example_constants :: constants where
  "example_constants =
     \<lparr> DOMAIN_STACK_REGION = ''us-east-1'',
       WATCHDOG_SERVER_CONTAINER_NAME = ''minecraft-ecsfargate-watchdog'' \<rparr>"

definition example_tokens :: tokens where
  "example_tokens =
     \<lparr> fileSystemId = ''fs-1'',
       fileSystemArn = ''arn:aws:elasticfilesystem:eu-west-1:111122223333:file-system/fs-1'',
       accessPointId = ''fsap-1'',
       accessPointArn = ''arn:aws:elasticfilesystem:eu-west-1:111122223333:access-point/fsap-1'',
       serviceArn = ''arn:aws:ecs:eu-west-1:111122223333:service/minecraft-server'',
       topicArn = ''arn:aws:sns:eu-west-1:111122223333:ServerSnsTopic'',
       hostedZoneId = ''Z0123456789'',
       launcherLambdaRoleArn = ''arn:aws:iam::111122223333:role/launcher'',
       stackPartition = ''aws'',
       stackRegion = ''eu-west-1'',
       stackAccount = ''111122223333'',
       watchdogAssetPath = ''/app/minecraft-ecsfargate-watchdog'' \<rparr>"

definition example_json :: string where
  "example_json = ''{'' @ quoted ''MOTD'' @ '':'' @ quoted ''hello'' @ ''}''"

definition example_json_eula :: string where
  "example_json_eula = ''{'' @ quoted ''EULA'' @ '':'' @ quoted ''FALSE'' @ ''}''"

definition example_env :: env where
  "example_env =
     [''DOMAIN_NAME'' \<mapsto> ''example.com'',
      ''SUBDOMAIN_PART'' \<mapsto> ''minecraft'',
      ''SERVER_REGION'' \<mapsto> ''eu-west-1'',
      ''USE_FARGATE_SPOT'' \<mapsto> ''false'',
      ''SNS_EMAIL_ADDRESS'' \<mapsto> ''ops@example.com'',
      ''TWILIO_PHONE_TO'' \<mapsto> ''+15550100'',
      ''MINECRAFT_IMAGE_ENV_VARS_JSON'' \<mapsto> example_json]"

definition example_twilio :: Twilio where
  "example_twilio = \<lparr> phoneFrom = [], phoneTo = ''+15550100'', accountId = [], authCode = [] \<rparr>"

definition example_config_ec2 :: "nat StackConfig" where
  "example_config_ec2 =
     \<lparr> domainName = ''example.com'',
       subdomainPart = ''minecraft'',
       serverRegion = ''eu-west-1'',
       minecraftEdition = java,
       shutdownMinutes = ''30'',
       startupMinutes = ''10'',
       useFargateSpot = True,
       taskCpu = 10240,
       taskMemory = 2048,
       vpcId = [],
       minecraftImageEnv = [js ''MOTD'' \<mapsto> JString (js ''hello'')],
       snsEmailAddress = ''ops@example.com'',
       twilio = example_twilio,
       debug = False \<rparr>"

definition example_config :: "nat NamedStackConfig" where
  "example_config =
     \<lparr> domainName = ''example.com'',
       subdomainPart = ''minecraft'',
       serverRegion = ''eu-west-1'',
       minecraftEdition = java,
       shutdownMinutes = ''30'',
       startupMinutes = ''10'',
       useFargateSpot = True,
       taskCpu = 8192,
       taskMemory = 2048,
       vpcId = [],
       minecraftImageEnv =
         [js ''EULA'' \<mapsto> JString (js ''TRUE''), js ''MOTD'' \<mapsto> JString (js ''hello'')],
       snsEmailAddress = ''ops@example.com'',
       twilio = example_twilio,
       debug = False,
       clusterName = ''minecraft-server-undefined'',
       serviceName = ''minecraft-server'',
       serverContainerName = ''minecraft-server'',
       ecsVolumeName = ''minecraft-server-undefined-data'' \<rparr>"

section \<open>Properties\<close>

subsection \<open>The example deployment resolves\<close>

lemma example_json_parses:
  "JSON_parse example_json = Some (JObject [(js ''MOTD'', JString (js ''hello''))])"
  by (simp add: JSON_parse_def parseTokens_def example_json_def quoted_def isWhitespace_def
      isDigit_def unit_of_def js_def)

lemma example_resolves: "resolveConfig example_helpers example_env = Inr example_config"
  by (simp add: resolveConfig_def resolveMinecraftEnvVars_def example_json_parses
      example_env_def example_config_def example_helpers_def example_twilio_def
      or_default_def plus_or_default_def interpolate_def spread_def setProp_def)

lemma example_resolves_ec2:
  "resolveConfig_ec2 example_helpers example_env = Inr example_config_ec2"
  by (simp add: resolveConfig_ec2_def resolveMinecraftEnvVars_ec2_def example_json_parses
      example_env_def example_config_ec2_def example_helpers_def example_twilio_def
      or_default_def plus_or_default_def interpolate_def spread_def setProp_def)

subsection \<open>What a resolved configuration holds\<close>

lemma resolveConfig_fields:
  assumes "resolveConfig h env = Inr config"
  shows "startupMinutes config = or_default (env ''STARTUP_MINUTES'') ''10''"
    and "shutdownMinutes config = or_default (env ''SHUTDOWN_MINUTES'') ''30''"
    and "useFargateSpot config"
    and "domainName config = or_default (env ''DOMAIN_NAME'') []"
    and "serverRegion config = or_default (env ''SERVER_REGION'') []"
  using assms by (auto simp: resolveConfig_def split: sum.splits)

lemma resolveConfig_ec2_fields:
  assumes "resolveConfig_ec2 h env = Inr config"
  shows "startupMinutes config = or_default (env ''STARTUP_MINUTES'') ''10''"
    and "shutdownMinutes config = or_default (env ''SHUTDOWN_MINUTES'') ''30''"
    and "useFargateSpot config"
  using assms by (auto simp: resolveConfig_ec2_def split: sum.splits)

lemma watchdog_environment:
  "environment (watchdogContainer (MinecraftStack u k tk config)) =
     [(''CLUSTER'', ''minecraft-server-'' @ subdomainPart config),
      (''SERVICE'', ''minecraft-server''),
      (''DNSZONE'', hostedZoneId tk),
      (''SERVERNAME'', subdomainPart config @ ''.'' @ domainName config),
      (''SNSTOPIC'', if snsEmailAddress config \<noteq> [] then topicArn tk else []),
      (''TWILIOFROM'', phoneFrom (twilio config)),
      (''TWILIOTO'', phoneTo (twilio config)),
      (''TWILIOAID'', accountId (twilio config)),
      (''TWILIOAUTH'', authCode (twilio config)),
      (''STARTUPMIN'', startupMinutes config),
      (''SHUTDOWNMIN'', shutdownMinutes config)]"
  by (simp add: MinecraftStack_def Let_def)

subsection \<open>Default grace window and idle threshold\<close>

text \<open>
  Claim C4. When \<^verbatim>\<open>STARTUP_MINUTES\<close> and \<^verbatim>\<open>SHUTDOWN_MINUTES\<close> are not set, every
  configuration that \<^verbatim>\<open>resolveConfig\<close> returns (either copy) has the startup grace window
  \<^verbatim>\<open>'10'\<close> and the idle shutdown threshold \<^verbatim>\<open>'30'\<close>, and the Watchdog's container
  receives these two values as \<^verbatim>\<open>STARTUPMIN\<close> and \<^verbatim>\<open>SHUTDOWNMIN\<close>.
\<close>

theorem default_minutes:
  assumes "env ''STARTUP_MINUTES'' = None" and "env ''SHUTDOWN_MINUTES'' = None"
  shows "(\<forall>config. resolveConfig h env = Inr config \<longrightarrow>
            startupMinutes config = ''10'' \<and> shutdownMinutes config = ''30'' \<and>
            map_of (environment (watchdogContainer (MinecraftStack u k tk config)))
              ''STARTUPMIN'' = Some ''10'' \<and>
            map_of (environment (watchdogContainer (MinecraftStack u k tk config)))
              ''SHUTDOWNMIN'' = Some ''30'') \<and>
         (\<forall>config. resolveConfig_ec2 h env = Inr config \<longrightarrow>
            startupMinutes config = ''10'' \<and> shutdownMinutes config = ''30'' \<and>
            map_of (environment (watchdogContainer (MinecraftStack u k tk config)))
              ''STARTUPMIN'' = Some ''10'' \<and>
            map_of (environment (watchdogContainer (MinecraftStack u k tk config)))
              ''SHUTDOWNMIN'' = Some ''30'')"
proof (intro conjI allI impI)
  fix config :: "'a NamedStackConfig"
  assume r: "resolveConfig h env = Inr config"
  from resolveConfig_fields(1) [OF r] assms show s: "startupMinutes config = ''10''"
    by (simp add: or_default_def)
  from resolveConfig_fields(2) [OF r] assms show t: "shutdownMinutes config = ''30''"
    by (simp add: or_default_def)
  from s show "map_of (environment (watchdogContainer (MinecraftStack u k tk config)))
      ''STARTUPMIN'' = Some ''10''"
    by (simp add: watchdog_environment)
  from t show "map_of (environment (watchdogContainer (MinecraftStack u k tk config)))
      ''SHUTDOWNMIN'' = Some ''30''"
    by (simp add: watchdog_environment)
next
  fix config :: "'a StackConfig"
  assume r: "resolveConfig_ec2 h env = Inr config"
  from resolveConfig_ec2_fields(1) [OF r] assms show s: "startupMinutes config = ''10''"
    by (simp add: or_default_def)
  from resolveConfig_ec2_fields(2) [OF r] assms show t: "shutdownMinutes config = ''30''"
    by (simp add: or_default_def)
  from s show "map_of (environment (watchdogContainer (MinecraftStack u k tk config)))
      ''STARTUPMIN'' = Some ''10''"
    by (simp add: watchdog_environment)
  from t show "map_of (environment (watchdogContainer (MinecraftStack u k tk config)))
      ''SHUTDOWNMIN'' = Some ''30''"
    by (simp add: watchdog_environment)
qed

theorem default_minutes_witness:
  "example_env ''STARTUP_MINUTES'' = None \<and> example_env ''SHUTDOWN_MINUTES'' = None \<and>
   resolveConfig example_helpers example_env = Inr example_config \<and>
   startupMinutes example_config = ''10'' \<and> shutdownMinutes example_config = ''30'' \<and>
   map_of (environment (watchdogContainer
     (MinecraftStack example_util example_constants example_tokens example_config)))
     ''STARTUPMIN'' = Some ''10'' \<and>
   map_of (environment (watchdogContainer
     (MinecraftStack example_util example_constants example_tokens example_config)))
     ''SHUTDOWNMIN'' = Some ''30'' \<and>
   resolveConfig_ec2 example_helpers example_env = Inr example_config_ec2 \<and>
   map_of (environment (watchdogContainer
     (MinecraftStack example_util example_constants example_tokens example_config_ec2)))
     ''STARTUPMIN'' = Some ''10'' \<and>
   map_of (environment (watchdogContainer
     (MinecraftStack example_util example_constants example_tokens example_config_ec2)))
     ''SHUTDOWNMIN'' = Some ''30''"
proof -
  have a: "example_env ''STARTUP_MINUTES'' = None" by (simp add: example_env_def)
  have b: "example_env ''SHUTDOWN_MINUTES'' = None" by (simp add: example_env_def)
  from default_minutes [OF a b, where h = example_helpers and u = example_util
      and k = example_constants and tk = example_tokens]
    example_resolves example_resolves_ec2 a b
  show ?thesis by blast
qed

subsection \<open>Who may change the record set of the hosted zone\<close>










subsection \<open>Desired task count of the service\<close>

lemma control_step_invariant:
  assumes "desiredTasks s = (if serviceState s = STARTING \<or> serviceState s = RUNNING then 1 else 0)"
  shows "desiredTasks (control_step s e) =
     (if serviceState (control_step s e) = STARTING \<or> serviceState (control_step s e) = RUNNING
      then 1 else 0)"
  using assms
  by (cases e) (auto simp: launcher_def scale_down_def setDesiredCount_def split: if_splits)

lemma control_run_snoc: "control_run s (es @ [e]) = control_step (control_run s es) e"
  by (simp add: control_run_def)

lemma control_run_invariant:
  assumes "desiredTasks s = (if serviceState s = STARTING \<or> serviceState s = RUNNING then 1 else 0)"
  shows "desiredTasks (control_run s es) =
     (if serviceState (control_run s es) = STARTING \<or> serviceState (control_run s es) = RUNNING
      then 1 else 0)"
proof (induction es rule: rev_induct)
  case Nil
  from assms show ?case by (simp add: control_run_def)
next
  case (snoc e es)
  from control_step_invariant [OF snoc.IH, of e] show ?case
    by (simp only: control_run_snoc)
qed

lemma control_step_idle:
  "serviceState s = IDLE \<Longrightarrow> e \<noteq> ConnectionDetected \<Longrightarrow> control_step s e = s"
  by (cases e) (simp_all add: scale_down_def)

lemma control_run_idle:
  "serviceState s = IDLE \<Longrightarrow> ConnectionDetected \<notin> set es \<Longrightarrow> control_run s es = s"
proof (induction es rule: rev_induct)
  case Nil
  show ?case by (simp add: control_run_def)
next
  case (snoc e es)
  then have "control_run s es = s" and "e \<noteq> ConnectionDetected" by auto
  with snoc.prems(1) show ?case
    by (simp add: control_run_snoc control_step_idle)
qed

text \<open>
  Claim C2. The Fargate service of the game server is declared with the desired task
  count zero, whatever the configuration. From the service as deployed, after any
  sequence of events of the control loop, exactly one task is desired when the service
  is \<open>STARTING\<close> or \<open>RUNNING\<close> and none when it is \<open>IDLE\<close> or \<open>STOPPING\<close>; and
  while no connection has been detected the service is \<open>IDLE\<close> and the desired task
  count stays zero.
\<close>

theorem desired_count_invariant:
  fixes u :: util and k :: constants and tk :: tokens
    and config :: "('n, 'z) StackConfig_scheme" and events :: "ControlEvent list"
  defines "s \<equiv> control_run (deployed (minecraftServerService (MinecraftStack u k tk config))) events"
  shows "desiredCount (minecraftServerService (MinecraftStack u k tk config)) = 0 \<and>
         desiredTasks s =
           (if serviceState s = STARTING \<or> serviceState s = RUNNING then 1 else 0) \<and>
         (ConnectionDetected \<notin> set events \<longrightarrow> serviceState s = IDLE \<and> desiredTasks s = 0)"
proof -
  let ?d = "deployed (minecraftServerService (MinecraftStack u k tk config))"
  have zero: "desiredCount (minecraftServerService (MinecraftStack u k tk config)) = 0"
    by (simp add: MinecraftStack_def Let_def)
  then have start: "serviceState ?d = IDLE" "desiredTasks ?d = 0"
    by (simp_all add: deployed_def)
  then have "desiredTasks ?d =
      (if serviceState ?d = STARTING \<or> serviceState ?d = RUNNING then 1 else 0)"
    by simp
  from control_run_invariant [OF this, of events]
  have inv: "desiredTasks s =
      (if serviceState s = STARTING \<or> serviceState s = RUNNING then 1 else 0)"
    by (simp add: s_def)
  have "serviceState s = IDLE \<and> desiredTasks s = 0" if "ConnectionDetected \<notin> set events"
    using control_run_idle [OF start(1) that] start by (simp add: s_def)
  with zero inv show ?thesis by blast
qed

theorem desired_count_invariant_witness:
  "ConnectionDetected \<notin> set [TaskTerminated, IdleTimeoutElapsed, TaskHealthy] \<and>
   serviceState (control_run (deployed (minecraftServerService
       (MinecraftStack example_util example_constants example_tokens example_config_ec2)))
     [TaskTerminated, IdleTimeoutElapsed, TaskHealthy]) = IDLE \<and>
   desiredTasks (control_run (deployed (minecraftServerService
       (MinecraftStack example_util example_constants example_tokens example_config_ec2)))
     [TaskTerminated, IdleTimeoutElapsed, TaskHealthy]) = 0 \<and>
   serviceState (control_run (deployed (minecraftServerService
       (MinecraftStack example_util example_constants example_tokens example_config_ec2)))
     [ConnectionDetected, ConnectionDetected, TaskHealthy]) = RUNNING \<and>
   desiredTasks (control_run (deployed (minecraftServerService
       (MinecraftStack example_util example_constants example_tokens example_config_ec2)))
     [ConnectionDetected, ConnectionDetected, TaskHealthy]) = 1"
proof -
  let ?d = "deployed (minecraftServerService
       (MinecraftStack example_util example_constants example_tokens example_config_ec2))"
  have a: "ConnectionDetected \<notin> set [TaskTerminated, IdleTimeoutElapsed, TaskHealthy]"
    by simp
  have d: "?d = \<lparr> serviceState = IDLE, desiredTasks = 0 \<rparr>"
    by (simp add: deployed_def MinecraftStack_def Let_def)
  have b: "serviceState (control_run ?d [ConnectionDetected, ConnectionDetected, TaskHealthy])
      = RUNNING"
    by (simp add: d control_run_def launcher_def setDesiredCount_def)
  from desired_count_invariant [where u = example_util and k = example_constants
      and tk = example_tokens and config = example_config_ec2
      and events = "[TaskTerminated, IdleTimeoutElapsed, TaskHealthy]"]
    desired_count_invariant [where u = example_util and k = example_constants
      and tk = example_tokens and config = example_config_ec2
      and events = "[ConnectionDetected, ConnectionDetected, TaskHealthy]"]
    a b
  show ?thesis by simp
qed

subsection \<open>The startup grace window of the Watchdog\<close>

lemma poll_in_grace:
  assumes "minutes w + 1 < startupMin c"
    and "wstate w \<noteq> SHUTTING_DOWN"
  shows "wstate (poll c w p) \<noteq> SHUTTING_DOWN"
    and "scaleDownRequests (poll c w p) = scaleDownRequests w"
    and "notifications (poll c w p) = notifications w"
    and "minutes (poll c w p) = minutes w + 1"
  using assms by (auto simp: poll_def Let_def zero_sample_def split: Poll.splits)

lemma watchdog_run_snoc:
  "watchdog_run c (ps @ [p]) = poll c (watchdog_run c ps) p"
  by (simp add: watchdog_run_def)

lemma grace_invariant:
  "length ps < startupMin c \<Longrightarrow>
     wstate (watchdog_run c ps) \<noteq> SHUTTING_DOWN \<and>
     scaleDownRequests (watchdog_run c ps) = 0 \<and>
     notifications (watchdog_run c ps) = [] \<and>
     minutes (watchdog_run c ps) = length ps"
proof (induction ps rule: rev_induct)
  case Nil
  show ?case by (simp add: watchdog_run_def watchdog_start_def)
next
  case (snoc p ps)
  then have len: "length ps + 1 < startupMin c" by simp
  with snoc.IH have inv: "wstate (watchdog_run c ps) \<noteq> SHUTTING_DOWN"
    "scaleDownRequests (watchdog_run c ps) = 0"
    "notifications (watchdog_run c ps) = []"
    "minutes (watchdog_run c ps) = length ps"
    by simp_all
  from len inv(4) have m: "minutes (watchdog_run c ps) + 1 < startupMin c" by simp
  from poll_in_grace [OF m inv(1), of p] inv show ?case
    by (simp add: watchdog_run_snoc)
qed

text \<open>
  Claim C3. Whatever the polls report during the startup grace window, the Watchdog is
  not in \<open>SHUTTING_DOWN\<close> and has issued no scale-down request and no \<open>STOPPING\<close>
  notification: with one poll a minute, after fewer polls than the grace window has
  minutes.
\<close>

theorem no_shutdown_in_grace_window:
  assumes "length polls < startupMin c"
  shows "wstate (watchdog_run c polls) \<noteq> SHUTTING_DOWN \<and>
         scaleDownRequests (watchdog_run c polls) = 0 \<and>
         STOPPING \<notin> set (notifications (watchdog_run c polls))"
  using grace_invariant [OF assms] by simp

theorem no_shutdown_in_grace_window_witness:
  "length [Connections 0, PollFailure, PollFailure, Connections 2, Connections 0]
     < startupMin \<lparr> startupMin = 6, shutdownMin = 1, retryBudget = 1 \<rparr> \<and>
   wstate (watchdog_run \<lparr> startupMin = 6, shutdownMin = 1, retryBudget = 1 \<rparr>
     [Connections 0, PollFailure, PollFailure, Connections 2, Connections 0]) \<noteq> SHUTTING_DOWN \<and>
   scaleDownRequests (watchdog_run \<lparr> startupMin = 6, shutdownMin = 1, retryBudget = 1 \<rparr>
     [Connections 0, PollFailure, PollFailure, Connections 2, Connections 0]) = 0"
proof -
  have a: "length [Connections 0, PollFailure, PollFailure, Connections 2, Connections 0]
     < startupMin \<lparr> startupMin = 6, shutdownMin = 1, retryBudget = 1 \<rparr>"
    by simp
  from no_shutdown_in_grace_window [OF a] a show ?thesis
    by blast
qed

text \<open>
  After the window the idle timer does lead to the shutdown: with a window of three
  minutes and a threshold of two, the fourth empty poll requests the scale-down, and a
  further poll requests nothing more.
\<close>

lemma shutdown_after_grace_example:
  "wstate (watchdog_run \<lparr> startupMin = 3, shutdownMin = 2, retryBudget = 1 \<rparr>
     [Connections 0, Connections 0, Connections 0, Connections 0]) = SHUTTING_DOWN \<and>
   scaleDownRequests (watchdog_run \<lparr> startupMin = 3, shutdownMin = 2, retryBudget = 1 \<rparr>
     [Connections 0, Connections 0, Connections 0, Connections 0, Connections 0]) = 1"
  by (simp add: watchdog_run_def watchdog_start_def poll_def zero_sample_def Let_def)

subsection \<open>The capacity provider\<close>

text \<open>
  Claim C5. In every configuration that \<^verbatim>\<open>resolveConfig\<close> returns (either copy),
  \<^verbatim>\<open>useFargateSpot\<close> is true, whatever \<^verbatim>\<open>stringAsBoolean\<close> makes of \<^verbatim>\<open>USE_FARGATE_SPOT\<close>:
  the field is \<^verbatim>\<open>stringAsBoolean(...) || true\<close>. The one capacity provider strategy of the
  Fargate service therefore names \<^verbatim>\<open>FARGATE_SPOT\<close>.
\<close>

theorem fargate_spot_always:
  "(\<forall>config. resolveConfig h env = Inr config \<longrightarrow>
      useFargateSpot config \<and>
      map capacityProvider (capacityProviderStrategies
        (minecraftServerService (MinecraftStack u k tk config))) = [''FARGATE_SPOT'']) \<and>
   (\<forall>config. resolveConfig_ec2 h env = Inr config \<longrightarrow>
      useFargateSpot config \<and>
      map capacityProvider (capacityProviderStrategies
        (minecraftServerService (MinecraftStack u k tk config))) = [''FARGATE_SPOT''])"
proof (intro conjI allI impI)
  fix config :: "'a NamedStackConfig"
  assume r: "resolveConfig h env = Inr config"
  from resolveConfig_fields(3) [OF r] show s: "useFargateSpot config" .
  then show "map capacityProvider (capacityProviderStrategies
        (minecraftServerService (MinecraftStack u k tk config))) = [''FARGATE_SPOT'']"
    by (simp add: MinecraftStack_def Let_def)
next
  fix config :: "'a StackConfig"
  assume r: "resolveConfig_ec2 h env = Inr config"
  from resolveConfig_ec2_fields(3) [OF r] show s: "useFargateSpot config" .
  then show "map capacityProvider (capacityProviderStrategies
        (minecraftServerService (MinecraftStack u k tk config))) = [''FARGATE_SPOT'']"
    by (simp add: MinecraftStack_def Let_def)
qed

theorem fargate_spot_always_witness:
  "example_env ''USE_FARGATE_SPOT'' = Some ''false'' \<and>
   \<not> stringAsBoolean example_helpers (example_env ''USE_FARGATE_SPOT'') \<and>
   resolveConfig example_helpers example_env = Inr example_config \<and>
   useFargateSpot example_config \<and>
   map capacityProvider (capacityProviderStrategies (minecraftServerService
     (MinecraftStack example_util example_constants example_tokens example_config)))
     = [''FARGATE_SPOT''] \<and>
   resolveConfig_ec2 example_helpers example_env = Inr example_config_ec2 \<and>
   useFargateSpot example_config_ec2 \<and>
   map capacityProvider (capacityProviderStrategies (minecraftServerService
     (MinecraftStack example_util example_constants example_tokens example_config_ec2)))
     = [''FARGATE_SPOT'']"
proof -
  have a: "example_env ''USE_FARGATE_SPOT'' = Some ''false''"
    by (simp add: example_env_def)
  then have b: "\<not> stringAsBoolean example_helpers (example_env ''USE_FARGATE_SPOT'')"
    by (simp add: example_helpers_def)
  from fargate_spot_always [where h = example_helpers and env = example_env
      and u = example_util and k = example_constants and tk = example_tokens]
    example_resolves example_resolves_ec2 a b
  show ?thesis by blast
qed

subsection \<open>The email channel\<close>

text \<open>
  Claim C6. The notification topic and its email subscription, whose endpoint is the
  configured address, are declared if and only if \<^verbatim>\<open>snsEmailAddress\<close> is not empty. The
  Watchdog receives the topic's name in \<^verbatim>\<open>SNSTOPIC\<close> in that case and the empty
  string otherwise.
\<close>

theorem email_channel_iff_address:
  fixes u :: util and k :: constants and tk :: tokens
    and config :: "('n, 'z) StackConfig_scheme"
  defines "R \<equiv> MinecraftStack u k tk config"
  shows "(snsTopic R \<noteq> None) = (snsEmailAddress config \<noteq> []) \<and>
         (emailSubscription R =
            Some \<lparr> subscriptionProtocol = EMAIL, endpoint = snsEmailAddress config \<rparr>)
           = (snsEmailAddress config \<noteq> []) \<and>
         (emailSubscription R = None) = (snsEmailAddress config = []) \<and>
         map_of (environment (watchdogContainer R)) ''SNSTOPIC'' =
           Some (if snsEmailAddress config \<noteq> [] then topicArn tk else [])"
  unfolding R_def by (simp add: watchdog_environment) (simp add: MinecraftStack_def Let_def)

theorem email_channel_iff_address_witness:
  "snsEmailAddress example_config_ec2 = ''ops@example.com'' \<and>
   snsTopic (MinecraftStack example_util example_constants example_tokens example_config_ec2)
     = Some \<lparr> displayName = ''Minecraft Server Notifications'' \<rparr> \<and>
   emailSubscription
       (MinecraftStack example_util example_constants example_tokens example_config_ec2)
     = Some \<lparr> subscriptionProtocol = EMAIL, endpoint = ''ops@example.com'' \<rparr> \<and>
   map_of (environment (watchdogContainer
       (MinecraftStack example_util example_constants example_tokens example_config_ec2)))
     ''SNSTOPIC'' = Some ''arn:aws:sns:eu-west-1:111122223333:ServerSnsTopic'' \<and>
   snsTopic (MinecraftStack example_util example_constants example_tokens
       (example_config_ec2\<lparr> snsEmailAddress := [] \<rparr>)) = None \<and>
   emailSubscription (MinecraftStack example_util example_constants example_tokens
       (example_config_ec2\<lparr> snsEmailAddress := [] \<rparr>)) = None \<and>
   map_of (environment (watchdogContainer
       (MinecraftStack example_util example_constants example_tokens
          (example_config_ec2\<lparr> snsEmailAddress := [] \<rparr>))))
     ''SNSTOPIC'' = Some []"
proof -
  have a: "snsEmailAddress example_config_ec2 = ''ops@example.com''"
    by (simp add: example_config_ec2_def)
  have b: "snsEmailAddress (example_config_ec2\<lparr> snsEmailAddress := [] \<rparr>) = []"
    by simp
  have c: "topicArn example_tokens = ''arn:aws:sns:eu-west-1:111122223333:ServerSnsTopic''"
    by (simp add: example_tokens_def)
  have d: "snsTopic (MinecraftStack example_util example_constants example_tokens example_config_ec2)
     = Some \<lparr> displayName = ''Minecraft Server Notifications'' \<rparr>"
    by (simp add: MinecraftStack_def Let_def a)
  from email_channel_iff_address [where u = example_util and k = example_constants
      and tk = example_tokens and config = example_config_ec2]
    email_channel_iff_address [where u = example_util and k = example_constants
      and tk = example_tokens and config = "example_config_ec2\<lparr> snsEmailAddress := [] \<rparr>"]
    a b c d
  show ?thesis by simp
qed

subsection \<open>The configuration surface\<close>

text \<open>
  Claim C7. For every configuration the Watchdog's container has exactly the eleven
  variables of the constructor, among them the startup grace minutes, the shutdown idle
  minutes, the topic and the four Twilio fields, each with the value of the
  configuration; the task definition has the configured CPU and memory; and each of the
  two containers has a log driver exactly when the debug flag is set.
\<close>

theorem configuration_surface:
  fixes u :: util and k :: constants and tk :: tokens
    and config :: "('n, 'z) StackConfig_scheme"
  defines "R \<equiv> MinecraftStack u k tk config"
  shows "map fst (environment (watchdogContainer R)) =
           [''CLUSTER'', ''SERVICE'', ''DNSZONE'', ''SERVERNAME'', ''SNSTOPIC'', ''TWILIOFROM'',
            ''TWILIOTO'', ''TWILIOAID'', ''TWILIOAUTH'', ''STARTUPMIN'', ''SHUTDOWNMIN''] \<and>
         map_of (environment (watchdogContainer R)) ''STARTUPMIN'' = Some (startupMinutes config) \<and>
         map_of (environment (watchdogContainer R)) ''SHUTDOWNMIN'' = Some (shutdownMinutes config) \<and>
         map_of (environment (watchdogContainer R)) ''SNSTOPIC'' =
           Some (if snsEmailAddress config \<noteq> [] then topicArn tk else []) \<and>
         map_of (environment (watchdogContainer R)) ''TWILIOFROM'' = Some (phoneFrom (twilio config)) \<and>
         map_of (environment (watchdogContainer R)) ''TWILIOTO'' = Some (phoneTo (twilio config)) \<and>
         map_of (environment (watchdogContainer R)) ''TWILIOAID'' = Some (accountId (twilio config)) \<and>
         map_of (environment (watchdogContainer R)) ''TWILIOAUTH'' = Some (authCode (twilio config)) \<and>
         cpu (taskDefinition R) = taskCpu config \<and>
         memoryLimitMiB (taskDefinition R) = taskMemory config \<and>
         (logging (minecraftServerContainer R) \<noteq> None) = debug config \<and>
         (logging (watchdogContainer R) \<noteq> None) = debug config"
  unfolding R_def by (simp add: watchdog_environment) (simp add: MinecraftStack_def Let_def)

theorem configuration_surface_witness:
  "map_of (environment (watchdogContainer
       (MinecraftStack example_util example_constants example_tokens example_config)))
     ''STARTUPMIN'' = Some ''10'' \<and>
   map_of (environment (watchdogContainer
       (MinecraftStack example_util example_constants example_tokens example_config)))
     ''SHUTDOWNMIN'' = Some ''30'' \<and>
   map_of (environment (watchdogContainer
       (MinecraftStack example_util example_constants example_tokens example_config)))
     ''TWILIOTO'' = Some ''+15550100'' \<and>
   cpu (taskDefinition
       (MinecraftStack example_util example_constants example_tokens example_config)) = 8192 \<and>
   memoryLimitMiB (taskDefinition
       (MinecraftStack example_util example_constants example_tokens example_config)) = 2048 \<and>
   logging (minecraftServerContainer
       (MinecraftStack example_util example_constants example_tokens example_config)) = None \<and>
   logging (watchdogContainer
       (MinecraftStack example_util example_constants example_tokens example_config)) = None \<and>
   logging (minecraftServerContainer
       (MinecraftStack example_util example_constants example_tokens
          (example_config\<lparr> debug := True \<rparr>))) \<noteq> None \<and>
   logging (watchdogContainer
       (MinecraftStack example_util example_constants example_tokens
          (example_config\<lparr> debug := True \<rparr>))) \<noteq> None"
proof -
  have a: "startupMinutes example_config = ''10''" "shutdownMinutes example_config = ''30''"
    "phoneTo (twilio example_config) = ''+15550100''" "taskCpu example_config = 8192"
    "taskMemory example_config = 2048" "\<not> debug example_config"
    by (simp_all add: example_config_def example_twilio_def)
  have b: "debug (example_config\<lparr> debug := True \<rparr>)"
    by simp
  from configuration_surface [where u = example_util and k = example_constants
      and tk = example_tokens and config = example_config]
    configuration_surface [where u = example_util and k = example_constants
      and tk = example_tokens and config = "example_config\<lparr> debug := True \<rparr>"]
    a b
  show ?thesis by simp
qed

subsection \<open>The checks of the entrypoint\<close>

lemma resolveConfig_error:
  "resolveConfig h env = Inl e \<Longrightarrow>
     e = Error ''Unable to resolve .env value for MINECRAFT_IMAGE_ENV_VARS_JSON.''"
  by (auto simp: resolveConfig_def resolveMinecraftEnvVars_def Let_def
      split: sum.splits option.splits)

text \<open>
  Claim C8. Once the configuration is resolved, the entrypoint throws if and only if
  \<^verbatim>\<open>domainName\<close> is empty, and then with the message about \<^verbatim>\<open>DOMAIN_NAME\<close>: all three
  checks test \<^verbatim>\<open>!config.domainName\<close>. The errors that name \<^verbatim>\<open>SUBDOMAIN_PART\<close> and
  \<^verbatim>\<open>SERVER_REGION\<close> are never thrown, whatever the environment.
\<close>

theorem entrypoint_throws_iff_no_domain_name:
  "(\<forall>config. resolveConfig h env = Inr config \<longrightarrow>
      ((\<exists>e. entrypoint h k env = Inl e) = (domainName config = [])) \<and>
      (domainName config = [] \<longrightarrow>
         entrypoint h k env = Inl (Error
           ''Missing required `DOMAIN_NAME` in .env file, please specify domain name''))) \<and>
   entrypoint h k env \<noteq> Inl (Error
     ''Missing required `SUBDOMAIN_PART` in .env file, please specify subdomain name.'') \<and>
   entrypoint h k env \<noteq> Inl (Error
     ''Missing required `SERVER_REGION` in .env file, example: us-east-1.'')"
proof (cases "resolveConfig h env")
  case (Inl e)
  then have "entrypoint h k env = Inl e"
    by (simp add: entrypoint_def)
  with Inl resolveConfig_error [OF Inl] show ?thesis
    by simp
next
  case (Inr config)
  then show ?thesis
    by (simp add: entrypoint_def)
qed

lemma example_resolves_no_domain:
  "resolveConfig example_helpers (example_env(''DOMAIN_NAME'' := None))
     = Inr (example_config\<lparr> domainName := [] \<rparr>)"
  by (simp add: resolveConfig_def resolveMinecraftEnvVars_def example_json_parses
      example_env_def example_config_def example_helpers_def example_twilio_def
      or_default_def plus_or_default_def interpolate_def spread_def setProp_def)

lemma example_resolves_domain_only:
  "resolveConfig example_helpers
     (example_env(''SUBDOMAIN_PART'' := None, ''SERVER_REGION'' := None))
     = Inr (example_config\<lparr> subdomainPart := [], serverRegion := [] \<rparr>)"
  by (simp add: resolveConfig_def resolveMinecraftEnvVars_def example_json_parses
      example_env_def example_config_def example_helpers_def example_twilio_def
      or_default_def plus_or_default_def interpolate_def spread_def setProp_def)

theorem entrypoint_throws_iff_no_domain_name_witness:
  "resolveConfig example_helpers (example_env(''DOMAIN_NAME'' := None))
     = Inr (example_config\<lparr> domainName := [] \<rparr>) \<and>
   entrypoint example_helpers example_constants (example_env(''DOMAIN_NAME'' := None))
     = Inl (Error ''Missing required `DOMAIN_NAME` in .env file, please specify domain name'') \<and>
   resolveConfig example_helpers
     (example_env(''SUBDOMAIN_PART'' := None, ''SERVER_REGION'' := None))
     = Inr (example_config\<lparr> subdomainPart := [], serverRegion := [] \<rparr>) \<and>
   \<not> (\<exists>e. entrypoint example_helpers example_constants
           (example_env(''SUBDOMAIN_PART'' := None, ''SERVER_REGION'' := None)) = Inl e)"
proof -
  have a: "domainName (example_config\<lparr> domainName := [] \<rparr>) = []"
    by simp
  have b: "domainName (example_config\<lparr> subdomainPart := [], serverRegion := [] \<rparr>) \<noteq> []"
    by (simp add: example_config_def)
  from entrypoint_throws_iff_no_domain_name [where h = example_helpers
      and k = example_constants and env = "example_env(''DOMAIN_NAME'' := None)"]
    entrypoint_throws_iff_no_domain_name [where h = example_helpers
      and k = example_constants
      and env = "example_env(''SUBDOMAIN_PART'' := None, ''SERVER_REGION'' := None)"]
    example_resolves_no_domain example_resolves_domain_only a b
  show ?thesis by blast
qed

subsection \<open>The two stacks\<close>

text \<open>
  Claim C10. When the entrypoint returns, the domain stack is declared in the region
  \<^verbatim>\<open>constants.DOMAIN_STACK_REGION\<close>, whatever the configured server region; the server
  stack is declared in the server region of the resolved configuration; and the one
  dependency declared is of the server stack on the domain stack.
\<close>

theorem stacks_regions_and_dependency:
  assumes "entrypoint h k env = Inr app"
  shows "region (domainStack app) = DOMAIN_STACK_REGION k \<and>
         resolveConfig h env = Inr (stackConfig (minecraftStack app)) \<and>
         region (minecraftStack app) = serverRegion (stackConfig (minecraftStack app)) \<and>
         stackConfig (domainStack app) = stackConfig (minecraftStack app) \<and>
         stackId (domainStack app) = ''minecraft-domain-stack'' \<and>
         stackId (minecraftStack app) = ''minecraft-server-stack'' \<and>
         dependencies app = [(stackId (minecraftStack app), stackId (domainStack app))]"
  using assms by (auto simp: entrypoint_def split: sum.splits if_splits)

lemma example_entrypoint:
  "entrypoint example_helpers example_constants example_env =
     Inr \<lparr> domainStack =
             \<lparr> stackId = ''minecraft-domain-stack'', region = ''us-east-1'',
               account = None, stackConfig = example_config \<rparr>,
           minecraftStack =
             \<lparr> stackId = ''minecraft-server-stack'', region = ''eu-west-1'',
               account = None, stackConfig = example_config \<rparr>,
           dependencies = [(''minecraft-server-stack'', ''minecraft-domain-stack'')] \<rparr>"
  by (simp add: entrypoint_def example_resolves)
     (simp add: example_config_def example_constants_def example_env_def)

theorem stacks_regions_and_dependency_witness:
  "(\<exists>app. entrypoint example_helpers example_constants example_env = Inr app \<and>
      region (domainStack app) = ''us-east-1'' \<and>
      region (minecraftStack app) = ''eu-west-1'' \<and>
      serverRegion (stackConfig (minecraftStack app)) = ''eu-west-1'' \<and>
      dependencies app = [(''minecraft-server-stack'', ''minecraft-domain-stack'')])"
proof -
  let ?app = "\<lparr> domainStack =
             \<lparr> stackId = ''minecraft-domain-stack'', region = ''us-east-1'',
               account = None, stackConfig = example_config \<rparr>,
           minecraftStack =
             \<lparr> stackId = ''minecraft-server-stack'', region = ''eu-west-1'',
               account = None, stackConfig = example_config \<rparr>,
           dependencies = [(''minecraft-server-stack'', ''minecraft-domain-stack'')] \<rparr>"
  from stacks_regions_and_dependency [OF example_entrypoint]
  have "region (minecraftStack ?app) = serverRegion (stackConfig (minecraftStack ?app))"
    and "dependencies ?app = [(stackId (minecraftStack ?app), stackId (domainStack ?app))]"
    by blast+
  with example_entrypoint show ?thesis
    by simp
qed

subsection \<open>The environment of the server image\<close>

lemma fold_setProp: "fold setProp kvs obj = obj ++ map_of (rev kvs)"
proof (induction kvs arbitrary: obj)
  case Nil
  show ?case by simp
next
  case (Cons kv kvs)
  have "fold setProp (kv # kvs) obj = setProp kv obj ++ map_of (rev kvs)"
    using Cons.IH [of "setProp kv obj"] by simp
  also have "setProp kv obj = obj ++ map_of [kv]"
    by (simp add: setProp_def)
  also have "obj ++ map_of [kv] ++ map_of (rev kvs) = obj ++ map_of (rev (kv # kvs))"
    by (simp only: rev.simps map_of_append map_add_assoc)
  finally show ?case .
qed

lemma spread_merge: "spread obj v = obj ++ map_of (rev (ownProps v))"
  by (simp add: spread_def fold_setProp)

lemma JSON_parse_empty: "JSON_parse [] = None"
  by (simp add: JSON_parse_def parseTokens_def)

text \<open>
  Claim C9, as the code has it. Both copies of \<^verbatim>\<open>resolveConfig\<close> throw the error
  \<^verbatim>\<open>Unable to resolve .env value for MINECRAFT_IMAGE_ENV_VARS_JSON.\<close> when the variable
  is not set, is empty or is not valid JSON. When it is valid JSON both return a
  configuration: in the copy of src/unnamed/part_001 \<^verbatim>\<open>minecraftImageEnv\<close> is the
  properties of the parsed value laid over the default \<^verbatim>\<open>{EULA: 'TRUE'}\<close>; in the copy
  of src/cdk/lib/ec2-stack.ts, which has no defaults, it is the properties of the parsed
  value alone.
\<close>

theorem image_env_error_or_merge:
  "(env ''MINECRAFT_IMAGE_ENV_VARS_JSON'' = None \<or>
    env ''MINECRAFT_IMAGE_ENV_VARS_JSON'' = Some [] \<or>
    (\<exists>s. env ''MINECRAFT_IMAGE_ENV_VARS_JSON'' = Some s \<and> JSON_parse s = None) \<longrightarrow>
      resolveConfig h env = Inl (Error
        ''Unable to resolve .env value for MINECRAFT_IMAGE_ENV_VARS_JSON.'') \<and>
      resolveConfig_ec2 h env = Inl (Error
        ''Unable to resolve .env value for MINECRAFT_IMAGE_ENV_VARS_JSON.'')) \<and>
   (\<forall>s v. env ''MINECRAFT_IMAGE_ENV_VARS_JSON'' = Some s \<and> JSON_parse s = Some v \<longrightarrow>
      (\<exists>config. resolveConfig h env = Inr config \<and>
         minecraftImageEnv config =
           [js ''EULA'' \<mapsto> JString (js ''TRUE'')] ++ map_of (rev (ownProps v))) \<and>
      (\<exists>config. resolveConfig_ec2 h env = Inr config \<and>
         minecraftImageEnv config = map_of (rev (ownProps v))))"
  by (auto simp: resolveConfig_def resolveConfig_ec2_def resolveMinecraftEnvVars_def
      resolveMinecraftEnvVars_ec2_def Let_def JSON_parse_empty spread_merge)

lemma example_json_eula_parses:
  "JSON_parse example_json_eula = Some (JObject [(js ''EULA'', JString (js ''FALSE''))])"
  by (simp add: JSON_parse_def parseTokens_def example_json_eula_def quoted_def
      isWhitespace_def isDigit_def unit_of_def js_def)

lemma unquoted_json_rejected: "JSON_parse ''{EULA:TRUE}'' = None"
  by (simp add: JSON_parse_def isWhitespace_def isDigit_def unit_of_def)

theorem image_env_error_or_merge_witness:
  "resolveConfig example_helpers (example_env(''MINECRAFT_IMAGE_ENV_VARS_JSON'' := None))
     = Inl (Error ''Unable to resolve .env value for MINECRAFT_IMAGE_ENV_VARS_JSON.'') \<and>
   resolveConfig_ec2 example_helpers (example_env(''MINECRAFT_IMAGE_ENV_VARS_JSON'' := None))
     = Inl (Error ''Unable to resolve .env value for MINECRAFT_IMAGE_ENV_VARS_JSON.'') \<and>
   resolveConfig example_helpers (example_env(''MINECRAFT_IMAGE_ENV_VARS_JSON'' \<mapsto> []))
     = Inl (Error ''Unable to resolve .env value for MINECRAFT_IMAGE_ENV_VARS_JSON.'') \<and>
   resolveConfig example_helpers
       (example_env(''MINECRAFT_IMAGE_ENV_VARS_JSON'' \<mapsto> ''{EULA:TRUE}''))
     = Inl (Error ''Unable to resolve .env value for MINECRAFT_IMAGE_ENV_VARS_JSON.'') \<and>
   (\<exists>config. resolveConfig example_helpers example_env = Inr config \<and>
      minecraftImageEnv config (js ''EULA'') = Some (JString (js ''TRUE'')) \<and>
      minecraftImageEnv config (js ''MOTD'') = Some (JString (js ''hello''))) \<and>
   (\<exists>config. resolveConfig example_helpers
        (example_env(''MINECRAFT_IMAGE_ENV_VARS_JSON'' \<mapsto> example_json_eula)) = Inr config \<and>
      minecraftImageEnv config (js ''EULA'') = Some (JString (js ''FALSE''))) \<and>
   (\<exists>config. resolveConfig_ec2 example_helpers example_env = Inr config \<and>
      minecraftImageEnv config (js ''EULA'') = None \<and>
      minecraftImageEnv config (js ''MOTD'') = Some (JString (js ''hello'')))"
proof -
  let ?var = "''MINECRAFT_IMAGE_ENV_VARS_JSON''"
  note t = image_env_error_or_merge [where h = example_helpers]
  have unset: "(example_env(?var := None)) ?var = None"
    by simp
  have empty: "(example_env(?var \<mapsto> [])) ?var = Some []"
    by simp
  have bad: "\<exists>s. (example_env(?var \<mapsto> ''{EULA:TRUE}'')) ?var = Some s \<and> JSON_parse s = None"
    using unquoted_json_rejected by simp
  have good: "example_env ?var = Some example_json \<and> JSON_parse example_json
      = Some (JObject [(js ''MOTD'', JString (js ''hello''))])"
    using example_json_parses by (simp add: example_env_def)
  have eula: "(example_env(?var \<mapsto> example_json_eula)) ?var = Some example_json_eula \<and>
      JSON_parse example_json_eula = Some (JObject [(js ''EULA'', JString (js ''FALSE''))])"
    using example_json_eula_parses by simp
  from t [where env = "example_env(?var := None)"] unset
  have 1: "resolveConfig example_helpers (example_env(?var := None))
      = Inl (Error ''Unable to resolve .env value for MINECRAFT_IMAGE_ENV_VARS_JSON.'')"
    and 2: "resolveConfig_ec2 example_helpers (example_env(?var := None))
      = Inl (Error ''Unable to resolve .env value for MINECRAFT_IMAGE_ENV_VARS_JSON.'')"
    by blast+
  from t [where env = "example_env(?var \<mapsto> [])"] empty
  have 3: "resolveConfig example_helpers (example_env(?var \<mapsto> []))
      = Inl (Error ''Unable to resolve .env value for MINECRAFT_IMAGE_ENV_VARS_JSON.'')"
    by blast
  from t [where env = "example_env(?var \<mapsto> ''{EULA:TRUE}'')"] bad
  have 4: "resolveConfig example_helpers (example_env(?var \<mapsto> ''{EULA:TRUE}''))
      = Inl (Error ''Unable to resolve .env value for MINECRAFT_IMAGE_ENV_VARS_JSON.'')"
    by blast
  from t [where env = example_env] good
  obtain c1 where c1: "resolveConfig example_helpers example_env = Inr c1"
    "minecraftImageEnv c1 = [js ''EULA'' \<mapsto> JString (js ''TRUE'')]
       ++ map_of (rev (ownProps (JObject [(js ''MOTD'', JString (js ''hello''))])))"
    by blast
  from t [where env = example_env] good
  obtain c3 where c3: "resolveConfig_ec2 example_helpers example_env = Inr c3"
    "minecraftImageEnv c3
       = map_of (rev (ownProps (JObject [(js ''MOTD'', JString (js ''hello''))])))"
    by blast
  from c3(2) have 7: "minecraftImageEnv c3 (js ''EULA'') = None"
    "minecraftImageEnv c3 (js ''MOTD'') = Some (JString (js ''hello''))"
    by (simp_all add: js_def unit_of_def)
  from c1(2) have 5: "minecraftImageEnv c1 (js ''EULA'') = Some (JString (js ''TRUE''))"
    "minecraftImageEnv c1 (js ''MOTD'') = Some (JString (js ''hello''))"
    by (simp_all add: js_def unit_of_def map_add_def)
  from t [where env = "example_env(?var \<mapsto> example_json_eula)"] eula
  obtain c2 where c2: "resolveConfig example_helpers
        (example_env(?var \<mapsto> example_json_eula)) = Inr c2"
    "minecraftImageEnv c2 = [js ''EULA'' \<mapsto> JString (js ''TRUE'')]
       ++ map_of (rev (ownProps (JObject [(js ''EULA'', JString (js ''FALSE''))])))"
    by blast
  from c2(2) have 6: "minecraftImageEnv c2 (js ''EULA'') = Some (JString (js ''FALSE''))"
    by (simp add: map_add_def)
  from 1 2 3 4 c1(1) 5 c2(1) 6 c3(1) 7 show ?thesis
    by blast
qed

text \<open>
  The claim as stated, that the configuration returned for valid JSON has the parsed
  object merged over the default, fails for the copy in src/cdk/lib/ec2-stack.ts: on
  the example environment it returns a configuration without \<^verbatim>\<open>EULA\<close>.
\<close>

theorem image_env_ec2_without_default:
  "example_env ''MINECRAFT_IMAGE_ENV_VARS_JSON'' = Some example_json \<and>
   JSON_parse example_json = Some (JObject [(js ''MOTD'', JString (js ''hello''))]) \<and>
   resolveConfig_ec2 example_helpers example_env = Inr example_config_ec2 \<and>
   minecraftImageEnv example_config_ec2 (js ''EULA'') = None \<and>
   ([js ''EULA'' \<mapsto> JString (js ''TRUE'')]
      ++ map_of (rev (ownProps (JObject [(js ''MOTD'', JString (js ''hello''))]))))
     (js ''EULA'') = Some (JString (js ''TRUE'')) \<and>
   minecraftImageEnv example_config_ec2 \<noteq>
     [js ''EULA'' \<mapsto> JString (js ''TRUE'')]
       ++ map_of (rev (ownProps (JObject [(js ''MOTD'', JString (js ''hello''))])))"
proof -
  let ?merged = "[js ''EULA'' \<mapsto> JString (js ''TRUE'')]
       ++ map_of (rev (ownProps (JObject [(js ''MOTD'', JString (js ''hello''))])))"
  have a: "example_env ''MINECRAFT_IMAGE_ENV_VARS_JSON'' = Some example_json"
    by (simp add: example_env_def)
  have b: "minecraftImageEnv example_config_ec2 (js ''EULA'') = None"
    by (simp add: example_config_ec2_def js_def unit_of_def)
  have c: "?merged (js ''EULA'') = Some (JString (js ''TRUE''))"
    by (simp add: map_add_def js_def unit_of_def)
  from b c have d: "minecraftImageEnv example_config_ec2 \<noteq> ?merged"
    by (metis option.distinct(1))
  from a b c d example_json_parses example_resolves_ec2 show ?thesis
    by blast
qed

end
